theory Spec2Isabelle
  imports Complex_Main "HOL-Library.Word"
begin

section \<open>Conventions of the embedding\<close>

text \<open>
  The repository is TypeScript. The embedding follows these conventions.
  \<^item> A \<open>bigint\<close> is an \<open>int\<close>; a \<open>Uint8Array\<close> is a list of 8-bit words.
  \<^item> A \<open>number\<close> is a \<open>real\<close>: the caller supplies a finite double, comparisons of
    doubles are exact, and the arithmetic is taken without rounding
    (\<open>Number(b)\<close> of a bigint as exact). Rounding changes one comparison of the
    router: the double product \<open>0.6 * 1.5\<close> is \<open>0.8999999999999999\<close>, below
    the threshold 0.9 that the real product meets, so at the level maximum the
    code drops Polygon and Avalanche where the model keeps them. No statement
    below evaluates the model at that level, and no comparison that a concrete
    example below evaluates changes under rounding.
  \<^item> A \<open>number\<close> that the code computes and that can be \<open>NaN\<close> (a read past the end
    of an array, \<open>0/0\<close>, arithmetic on \<open>undefined\<close>) is a \<open>jsnum\<close>: \<open>NaN\<close> or \<open>Num x\<close>.
    Every comparison with \<open>NaN\<close> is false, as in the language.
  \<^item> A \<open>Map\<close> with string keys is a partial function on strings; a \<open>Set\<close> of
    strings is the list of its elements in insertion order, without repetition.
  \<^item> Methods of a class take the fields they read as an explicit state record
    and return the state they leave behind when they write to it.
  \<^item> \<open>Date.now()\<close> and the external \<open>sha256\<close> are parameters (\<open>now\<close>, \<open>H\<close>).
  \<^item> Field names that several interfaces share carry a short prefix of their
    interface (\<open>pd_amount\<close> of \<open>PaymentData\<close>, \<open>ro_amount\<close> of \<open>RoutingOptions\<close>).
\<close>

type_synonym byte = "8 word"

datatype jsnum = NaN | Num real

text \<open>\<open>a > y\<close> and \<open>a === y\<close> for a computed number \<open>a\<close> and a literal \<open>y\<close>.\<close>

fun gt :: "jsnum \<Rightarrow> real \<Rightarrow> bool" where
  "gt NaN y = False"
| "gt (Num x) y = (y < x)"

fun eqn :: "jsnum \<Rightarrow> real \<Rightarrow> bool" where
  "eqn NaN y = False"
| "eqn (Num x) y = (x = y)"

section \<open>Fraud detector (src/unnamed/part_001, the module intelligence/fraud-detector)\<close>

record PaymentData =
  pd_pseudonym :: "byte list"
  pd_amount :: int
  pd_timestamp :: int
  pd_chain :: string
  commitment :: "byte list"

datatype RiskLevel = RLow | RMedium | RHigh | RCritical

record FraudAssessment =
  riskScore :: real
  riskLevel :: RiskLevel
  anomalies :: "string list"
  fa_confidence :: real

record DetectionOptions =
  preservePrivacy :: bool
  sensitivity :: real

record FeatureSet =
  amountCategory :: jsnum
  timePattern :: jsnum
  chainPattern :: jsnum
  fs_frequency :: jsnum
  amountDeviation :: jsnum

record PaymentPattern =
  pp_pseudonym :: "byte list"
  payments :: "PaymentData list"
  pp_frequency :: real
  pp_avgAmount :: real
  chains :: "string list"
  pp_lastUpdated :: int

record FraudDetector =
  patterns :: "string \<rightharpoonup> PaymentPattern"
  anomalyThreshold :: real

text \<open>The field initialisers of the class: an empty map and threshold 0.7.\<close>

definition newFraudDetector :: FraudDetector where
  "newFraudDetector = \<lparr>patterns = Map.empty, anomalyThreshold = 0.7\<rparr>"

subsection \<open>bytesToHex\<close>

definition hexDigit :: "nat \<Rightarrow> char" where
  "hexDigit d = ''0123456789abcdef'' ! d"

text \<open>\<open>b.toString(16)\<close> for a byte: one digit below 16, two digits otherwise.\<close>

definition toString16 :: "byte \<Rightarrow> string" where
  "toString16 b =
     (if unat b < 16 then [hexDigit (unat b)]
      else [hexDigit (unat b div 16), hexDigit (unat b mod 16)])"

definition padStart :: "string \<Rightarrow> nat \<Rightarrow> char \<Rightarrow> string" where
  "padStart s n c = replicate (n - length s) c @ s"

definition bytesToHex :: "byte list \<Rightarrow> string" where
  "bytesToHex bytes = concat (map (\<lambda>b. padStart (toString16 b) 2 CHR ''0'') bytes)"

subsection \<open>Feature extraction\<close>

text \<open>
  \<open>hash[index]\<close> with \<open>index = offset % hash.length\<close>. On an empty array the index
  is \<open>NaN\<close>, the read is \<open>undefined\<close> and the arithmetic on it is \<open>NaN\<close>.
\<close>

definition hashToCategory :: "byte list \<Rightarrow> nat \<Rightarrow> nat \<Rightarrow> jsnum" where
  "hashToCategory hash offset mx =
     (if hash = [] then NaN
      else let index = offset mod length hash
           in Num (real (unat (hash ! index) mod mx)))"

definition hashToNumber :: "byte list \<Rightarrow> nat \<Rightarrow> real \<Rightarrow> jsnum" where
  "hashToNumber hash offset mx =
     (if hash = [] then NaN
      else let index = offset mod length hash
           in Num ((real (unat (hash ! index)) / 255) * mx))"

text \<open>Division of a computed number by a literal.\<close>

fun divn :: "jsnum \<Rightarrow> real \<Rightarrow> jsnum" where
  "divn NaN y = NaN"
| "divn (Num x) y = Num (x / y)"

definition extractPrivateFeatures :: "(byte list \<Rightarrow> byte list) \<Rightarrow> PaymentData \<Rightarrow> FeatureSet" where
  "extractPrivateFeatures H payment =
     (let hash = H (commitment payment)
      in \<lparr>amountCategory = hashToCategory hash 0 5,
          timePattern = hashToCategory hash 1 4,
          chainPattern = hashToCategory hash 2 7,
          fs_frequency = divn (hashToNumber hash 3 100) 100,
          amountDeviation = divn (hashToNumber hash 4 50) 100\<rparr>)"

definition categorizeAmount :: "int \<Rightarrow> real" where
  "categorizeAmount amount =
     (if amount < 1000 then 0
      else if amount < 10000 then 1
      else if amount < 100000 then 2
      else if amount < 1000000 then 3
      else 4)"

text \<open>The loop of \<open>analyzeTimePattern\<close>: differences of consecutive timestamps.\<close>

fun intervalsOf :: "real list \<Rightarrow> real list" where
  "intervalsOf (a # b # ts) = (b - a) # intervalsOf (b # ts)"
| "intervalsOf ts = []"

definition analyzeTimePattern :: "PaymentPattern \<Rightarrow> int \<Rightarrow> real" where
  "analyzeTimePattern pattern timestamp =
     (if length (payments pattern) < 2 then 0
      else let intervals = intervalsOf (map (\<lambda>p. real_of_int (pd_timestamp p)) (payments pattern));
               avgInterval = foldl (+) 0 intervals / real (length intervals);
               variance = foldl (\<lambda>sum interval. sum + (interval - avgInterval) ^ 2) 0 intervals
                            / real (length intervals)
           in if variance < (avgInterval * 0.3) ^ 2 then 1 else 0)"

text \<open>
  \<open>pattern.chains.add(chain); return pattern.chains.size\<close>: the stored set is
  written, and the pattern comes back with it.
\<close>

definition setAdd :: "string list \<Rightarrow> string \<Rightarrow> string list" where
  "setAdd s x = (if x \<in> set s then s else s @ [x])"

definition analyzeChainPattern :: "PaymentPattern \<Rightarrow> string \<Rightarrow> real \<times> PaymentPattern" where
  "analyzeChainPattern pattern chain =
     (let pattern' = pattern\<lparr>chains := setAdd (chains pattern) chain\<rparr>
      in (real (length (chains pattern')), pattern'))"

text \<open>
  \<open>Math.min(1.0, Math.abs(Number(amount) - avg) / avg)\<close>. Without payments the
  average is \<open>0/0\<close>, and so is the result. With \<open>avg = 0\<close> the quotient is
  \<open>Infinity\<close> (minimum 1) when the numerator is not 0, and \<open>NaN\<close> when it is.
\<close>

definition calculateDeviation :: "PaymentPattern \<Rightarrow> int \<Rightarrow> jsnum" where
  "calculateDeviation pattern amount =
     (let amounts = map (\<lambda>p. real_of_int (pd_amount p)) (payments pattern);
          avg = foldl (+) 0 amounts / real (length amounts)
      in if length amounts = 0 then NaN
         else if avg = 0 then (if real_of_int amount - avg = 0 then NaN else Num 1)
         else Num (min 1 (\<bar>real_of_int amount - avg\<bar> / avg)))"

datatype error = TypeError

text \<open>
  \<open>extractDirectFeatures\<close> passes the looked-up pattern to \<open>analyzeChainPattern\<close>
  without a test: when the pseudonym has no pattern, \<open>pattern.chains\<close> throws a
  \<open>TypeError\<close>. Otherwise the pattern written by \<open>analyzeChainPattern\<close> is the
  object stored in the map.
\<close>

definition extractDirectFeatures :: "FraudDetector \<Rightarrow> PaymentData \<Rightarrow> error + (FeatureSet \<times> FraudDetector)" where
  "extractDirectFeatures d payment =
     (let key = bytesToHex (pd_pseudonym payment)
      in case patterns d key of
           None \<Rightarrow> Inl TypeError
         | Some pattern \<Rightarrow>
             (let (n, pattern') = analyzeChainPattern pattern (pd_chain payment)
              in Inr (\<lparr>amountCategory = Num (categorizeAmount (pd_amount payment)),
                       timePattern = Num (analyzeTimePattern pattern (pd_timestamp payment)),
                       chainPattern = Num n,
                       fs_frequency = Num (pp_frequency pattern'),
                       amountDeviation = calculateDeviation pattern' (pd_amount payment)\<rparr>,
                      d\<lparr>patterns := (patterns d)(key \<mapsto> pattern')\<rparr>)))"

definition extractFeatures :: "(byte list \<Rightarrow> byte list) \<Rightarrow> FraudDetector \<Rightarrow> PaymentData \<Rightarrow> bool
    \<Rightarrow> error + (FeatureSet \<times> FraudDetector)" where
  "extractFeatures H d payment privacy =
     (if privacy then Inr (extractPrivateFeatures H payment, d)
      else extractDirectFeatures d payment)"

subsection \<open>Anomalies, score, level, confidence\<close>

definition detectAnomalies :: "FeatureSet \<Rightarrow> real \<Rightarrow> string list" where
  "detectAnomalies features sens =
     (if gt (amountCategory features) 4 \<and> sens > 0.3 then [''unusual_amount_category''] else []) @
     (if gt (fs_frequency features) 0.8 \<and> sens > 0.4 then [''high_frequency''] else []) @
     (if gt (amountDeviation features) 0.5 \<and> sens > 0.5 then [''high_amount_deviation''] else []) @
     (if eqn (timePattern features) 0 \<and> sens > 0.6 then [''irregular_timing''] else []) @
     (if gt (chainPattern features) 5 \<and> sens > 0.7 then [''excessive_chain_switching''] else [])"

definition calculateRiskScore :: "string list \<Rightarrow> FeatureSet \<Rightarrow> real" where
  "calculateRiskScore anoms features =
     (let risk = 0 + real (length anoms) * 0.15;
          risk = (if gt (fs_frequency features) 0.9 then risk + 0.2 else risk);
          risk = (if gt (amountDeviation features) 0.7 then risk + 0.15 else risk);
          risk = (if eqn (timePattern features) 0 then risk + 0.1 else risk)
      in min 1.0 risk)"

definition scoreToLevel :: "real \<Rightarrow> RiskLevel" where
  "scoreToLevel score =
     (if score \<ge> 0.8 then RCritical
      else if score \<ge> 0.6 then RHigh
      else if score \<ge> 0.4 then RMedium
      else RLow)"

definition calculateConfidence :: "FeatureSet \<Rightarrow> string list \<Rightarrow> real" where
  "calculateConfidence features anoms =
     (let confidence = 0.5;
          confidence = (if gt (fs_frequency features) 0 then confidence + 0.2 else confidence);
          confidence = (if length anoms > 0 then confidence + 0.2 else confidence)
      in min 1.0 confidence)"

definition assessRisk :: "(byte list \<Rightarrow> byte list) \<Rightarrow> FraudDetector \<Rightarrow> PaymentData \<Rightarrow> DetectionOptions
    \<Rightarrow> error + (FraudAssessment \<times> FraudDetector)" where
  "assessRisk H d payment options =
     (case extractFeatures H d payment (preservePrivacy options) of
        Inl e \<Rightarrow> Inl e
      | Inr (features, d') \<Rightarrow>
          (let anoms = detectAnomalies features (sensitivity options);
               score = calculateRiskScore anoms features;
               level = scoreToLevel score;
               confidence = calculateConfidence features anoms
           in Inr (\<lparr>riskScore = score, riskLevel = level, anomalies = anoms,
                     fa_confidence = confidence\<rparr>, d')))"

text \<open>The default of the second parameter of \<open>assessRisk\<close>.\<close>

definition defaultDetectionOptions :: DetectionOptions where
  "defaultDetectionOptions = \<lparr>preservePrivacy = True, sensitivity = 0.5\<rparr>"

definition updatePattern :: "int \<Rightarrow> FraudDetector \<Rightarrow> PaymentData \<Rightarrow> FraudDetector" where
  "updatePattern now d payment =
     (let key = bytesToHex (pd_pseudonym payment)
      in case patterns d key of
           Some existing \<Rightarrow>
             (let ps = payments existing @ [payment]
              in d\<lparr>patterns := (patterns d)(key \<mapsto>
                    existing\<lparr>payments := ps,
                             pp_frequency := real (length ps) / 10,
                             pp_lastUpdated := now\<rparr>)\<rparr>)
         | None \<Rightarrow>
             d\<lparr>patterns := (patterns d)(key \<mapsto>
                  \<lparr>pp_pseudonym = pd_pseudonym payment,
                   payments = [payment],
                   pp_frequency = 0.1,
                   pp_avgAmount = real_of_int (pd_amount payment),
                   chains = [pd_chain payment],
                   pp_lastUpdated = now\<rparr>)\<rparr>)"

text \<open>The order of the four risk levels.\<close>

fun levelRank :: "RiskLevel \<Rightarrow> nat" where
  "levelRank RLow = 0"
| "levelRank RMedium = 1"
| "levelRank RHigh = 2"
| "levelRank RCritical = 3"

section \<open>Payment router (src/src/intelligence/payment-optimizer.ts)\<close>

datatype PrivacyLevel = Low | Medium | High | Maximum

record PaymentRoute =
  chain :: string
  estimatedGas :: int
  privacyScore :: real
  successRate :: real
  estimatedTime :: real

record RoutingOptions =
  ro_amount :: int
  ro_targetChain :: "string option"
  ro_privacyLevel :: PrivacyLevel
  maxGasPrice :: "int option"
  preferredChains :: "string list option"

record ChainMetrics =
  cm_avgGasPrice :: int
  avgConfirmationBlocks :: real
  cm_networkHealth :: real
  cm_lastUpdated :: int

record AIPaymentRouter =
  routingHistory :: "string \<rightharpoonup> PaymentRoute list"
  chainMetrics :: "string \<rightharpoonup> ChainMetrics"

text \<open>
  \<open>table[key] || d\<close> on numbers: the default stands for a missing key and for a
  stored 0.
\<close>

fun orDefault :: "'a::zero option \<Rightarrow> 'a \<Rightarrow> 'a" where
  "orDefault None d = d"
| "orDefault (Some v) d = (if v = 0 then d else v)"

definition sevenChains :: "string list" where
  "sevenChains = [''ethereum'', ''polygon'', ''bsc'', ''arbitrum'', ''optimism'',
                  ''avalanche'', ''solana'']"

definition initializeChainMetrics :: "int \<Rightarrow> string \<rightharpoonup> ChainMetrics" where
  "initializeChainMetrics now =
     map_of (map (\<lambda>c. (c, \<lparr>cm_avgGasPrice = 20, avgConfirmationBlocks = 12,
                             cm_networkHealth = 0.95, cm_lastUpdated = now\<rparr>)) sevenChains)"

text \<open>The constructor: an empty history, and the metrics of the seven chains.\<close>

definition newAIPaymentRouter :: "int \<Rightarrow> AIPaymentRouter" where
  "newAIPaymentRouter now =
     \<lparr>routingHistory = Map.empty, chainMetrics = initializeChainMetrics now\<rparr>"

definition baseGas :: "string \<rightharpoonup> int" where
  "baseGas = map_of [(''ethereum'', 21000), (''polygon'', 21000), (''bsc'', 21000),
     (''arbitrum'', 21000), (''optimism'', 21000), (''avalanche'', 21000), (''solana'', 5000)]"

text \<open>
  \<open>BigInt(Math.floor(Number(base) * complexityMultiplier))\<close>. On the two base
  values of the table the double product rounds to the exact 25200 and 6000.
\<close>

definition estimateGas :: "string \<Rightarrow> int \<Rightarrow> int" where
  "estimateGas c amount =
     (let base = orDefault (baseGas c) 21000;
          complexityMultiplier = (if amount > 1000000 then 1.2 else 1.0 :: real)
      in \<lfloor>real_of_int base * complexityMultiplier\<rfloor>)"

definition baseScores :: "string \<rightharpoonup> real" where
  "baseScores = map_of [(''ethereum'', 0.7), (''polygon'', 0.6), (''bsc'', 0.5),
     (''arbitrum'', 0.7), (''optimism'', 0.7), (''avalanche'', 0.6), (''solana'', 0.8)]"

fun levelMultipliers :: "PrivacyLevel \<Rightarrow> real" where
  "levelMultipliers Low = 0.8"
| "levelMultipliers Medium = 1.0"
| "levelMultipliers High = 1.2"
| "levelMultipliers Maximum = 1.5"

definition calculatePrivacyScore :: "string \<Rightarrow> PrivacyLevel \<Rightarrow> real" where
  "calculatePrivacyScore c lvl =
     (let base = orDefault (baseScores c) 0.5
      in min 1.0 (base * orDefault (Some (levelMultipliers lvl)) 1.0))"

definition defaultSuccessRates :: "string \<rightharpoonup> real" where
  "defaultSuccessRates = map_of [(''ethereum'', 0.95), (''polygon'', 0.98), (''bsc'', 0.97),
     (''arbitrum'', 0.96), (''optimism'', 0.96), (''avalanche'', 0.97), (''solana'', 0.99)]"

definition getSuccessRate :: "AIPaymentRouter \<Rightarrow> string \<Rightarrow> int \<Rightarrow> real" where
  "getSuccessRate r c amount =
     (let history = (case routingHistory r c of None \<Rightarrow> [] | Some h \<Rightarrow> h)
      in if length history = 0 then orDefault (defaultSuccessRates c) 0.95
         else let successful = length (filter (\<lambda>x. successRate x > 0.9) history)
              in real successful / real (length history))"

definition blockTimes :: "string \<rightharpoonup> real" where
  "blockTimes = map_of [(''ethereum'', 12000), (''polygon'', 2000), (''bsc'', 3000),
     (''arbitrum'', 1000), (''optimism'', 2000), (''avalanche'', 2000), (''solana'', 400)]"

definition estimateTime :: "string \<Rightarrow> ChainMetrics \<Rightarrow> real" where
  "estimateTime c metrics =
     (let blockTime = orDefault (blockTimes c) 2000;
          blocksToConfirm = orDefault (Some (avgConfirmationBlocks metrics)) 12
      in blockTime * blocksToConfirm)"

fun thresholds :: "PrivacyLevel \<Rightarrow> real" where
  "thresholds Low = 0.3"
| "thresholds Medium = 0.5"
| "thresholds High = 0.7"
| "thresholds Maximum = 0.9"

definition getPrivacyScore :: "PrivacyLevel \<Rightarrow> real" where
  "getPrivacyScore lvl = orDefault (Some (thresholds lvl)) 0.5"

definition createDefaultRoute :: "string \<Rightarrow> PaymentRoute" where
  "createDefaultRoute c =
     \<lparr>chain = c, estimatedGas = 21000, privacyScore = 0.7, successRate = 0.95,
      estimatedTime = 12000\<rparr>"

definition calculateRoute :: "AIPaymentRouter \<Rightarrow> string \<Rightarrow> RoutingOptions \<Rightarrow> ChainMetrics
    \<Rightarrow> PaymentRoute" where
  "calculateRoute r c options metrics =
     \<lparr>chain = c,
      estimatedGas = estimateGas c (ro_amount options),
      privacyScore = calculatePrivacyScore c (ro_privacyLevel options),
      successRate = getSuccessRate r c (ro_amount options),
      estimatedTime = estimateTime c metrics\<rparr>"

text \<open>The score that the comparator of \<open>routes.sort\<close> computes for each side.\<close>

definition routeScore :: "PaymentRoute \<Rightarrow> real" where
  "routeScore a =
     privacyScore a * 0.4 + successRate a * 0.4
       - (if estimatedGas a > 0 then real_of_int (estimatedGas a) / 1000000000 else 0) * 0.2"

text \<open>The loop over the available chains: a chain without metrics is skipped.\<close>

fun analyzeChains :: "AIPaymentRouter \<Rightarrow> RoutingOptions \<Rightarrow> string list \<Rightarrow> PaymentRoute list" where
  "analyzeChains r options [] = []"
| "analyzeChains r options (c # cs) =
     (case chainMetrics r c of
        None \<Rightarrow> analyzeChains r options cs
      | Some metrics \<Rightarrow> calculateRoute r c options metrics # analyzeChains r options cs)"

text \<open>
  \<open>routes.sort((a, b) => scoreB - scoreA)\<close> is a stable sort by descending
  score; \<open>sort_key\<close> is a stable insertion sort, here by ascending negated
  score. \<open>options.maxGasPrice ? ... : ...\<close> tests the truthiness of an optional
  bigint: \<open>undefined\<close> and \<open>0n\<close> both take the second branch. In the last line,
  \<open>options.targetChain || "ethereum"\<close> replaces \<open>undefined\<close> and the empty string.
\<close>

definition findOptimalRoute :: "AIPaymentRouter \<Rightarrow> RoutingOptions \<Rightarrow> PaymentRoute" where
  "findOptimalRoute r options =
     (let availableChains = (case preferredChains options of None \<Rightarrow> sevenChains | Some cs \<Rightarrow> cs);
          routes = analyzeChains r options availableChains;
          routes = sort_key (\<lambda>a. - routeScore a) routes;
          minPrivacyScore = getPrivacyScore (ro_privacyLevel options);
          filteredRoutes = filter (\<lambda>x. privacyScore x \<ge> minPrivacyScore) routes;
          finalRoutes = (case maxGasPrice options of
                           None \<Rightarrow> filteredRoutes
                         | Some m \<Rightarrow> if m = 0 then filteredRoutes
                                     else filter (\<lambda>x. estimatedGas x \<le> m) filteredRoutes)
      in case finalRoutes of
           x # _ \<Rightarrow> x
         | [] \<Rightarrow> (case routes of
                    x # _ \<Rightarrow> x
                  | [] \<Rightarrow> createDefaultRoute
                            (case ro_targetChain options of
                               None \<Rightarrow> ''ethereum''
                             | Some t \<Rightarrow> if t = [] then ''ethereum'' else t)))"

text \<open>\<open>history.push(route)\<close>, then \<open>history.shift()\<close> when more than 100 are held.\<close>

definition updateHistory :: "AIPaymentRouter \<Rightarrow> string \<Rightarrow> PaymentRoute \<Rightarrow> AIPaymentRouter" where
  "updateHistory r c rt =
     (let history = (case routingHistory r c of None \<Rightarrow> [] | Some h \<Rightarrow> h);
          history = history @ [rt];
          history = (if length history > 100 then tl history else history)
      in r\<lparr>routingHistory := (routingHistory r)(c \<mapsto> history)\<rparr>)"

section \<open>Privacy adapter (src/unnamed/part_002, the module intelligence/privacy-adapter)\<close>

datatype ThreatLevel = TLow | TMedium | THigh | TCritical

datatype TransactionType = Payment | Reputation | Compliance | Governance

record PrivacyConfiguration =
  level :: PrivacyLevel
  proofSize :: real
  verifyTime :: real
  zkProofRequired :: bool
  merkleDepth :: real
  polynomialDegree :: real

record NetworkConditions =
  congestion :: real
  nc_avgGasPrice :: int
  nc_networkHealth :: real

record PrivacyContext =
  userPseudonym :: "byte list"
  transactionType :: TransactionType
  ctx_amount :: "int option"
  threatLevel :: "ThreatLevel option"
  networkConditions :: "NetworkConditions option"

record PrivacyAdapter =
  threatHistory :: "string \<rightharpoonup> ThreatLevel list"
  privacyConfigs :: "PrivacyLevel \<rightharpoonup> PrivacyConfiguration"

definition initializePrivacyConfigs :: "PrivacyLevel \<rightharpoonup> PrivacyConfiguration" where
  "initializePrivacyConfigs =
     [Low \<mapsto> \<lparr>level = Low, proofSize = 1024, verifyTime = 10, zkProofRequired = False,
               merkleDepth = 8, polynomialDegree = 4\<rparr>,
      Medium \<mapsto> \<lparr>level = Medium, proofSize = 2048, verifyTime = 50, zkProofRequired = True,
               merkleDepth = 12, polynomialDegree = 8\<rparr>,
      High \<mapsto> \<lparr>level = High, proofSize = 4096, verifyTime = 100, zkProofRequired = True,
               merkleDepth = 16, polynomialDegree = 16\<rparr>,
      Maximum \<mapsto> \<lparr>level = Maximum, proofSize = 8192, verifyTime = 200, zkProofRequired = True,
               merkleDepth = 20, polynomialDegree = 32\<rparr>]"

definition newPrivacyAdapter :: PrivacyAdapter where
  "newPrivacyAdapter = \<lparr>threatHistory = Map.empty, privacyConfigs = initializePrivacyConfigs\<rparr>"

subsection \<open>Stepping a level\<close>

definition levels :: "PrivacyLevel list" where
  "levels = [Low, Medium, High, Maximum]"

text \<open>\<open>Array.prototype.indexOf\<close>: the first index of the element, or -1.\<close>

fun indexOfFrom :: "'a list \<Rightarrow> 'a \<Rightarrow> int \<Rightarrow> int" where
  "indexOfFrom [] x i = -1"
| "indexOfFrom (y # ys) x i = (if y = x then i else indexOfFrom ys x (i + 1))"

definition indexOf :: "'a list \<Rightarrow> 'a \<Rightarrow> int" where
  "indexOf xs x = indexOfFrom xs x 0"

text \<open>An array read \<open>xs[i]\<close>: \<open>None\<close> is the \<open>undefined\<close> of an index out of range.\<close>

definition arrayAt :: "'a list \<Rightarrow> int \<Rightarrow> 'a option" where
  "arrayAt xs i = (if 0 \<le> i \<and> i < int (length xs) then Some (xs ! nat i) else None)"

definition adjustLevel :: "PrivacyLevel \<Rightarrow> int \<Rightarrow> PrivacyLevel option" where
  "adjustLevel lvl steps =
     (let currentIndex = indexOf levels lvl;
          newIndex = max 0 (min (int (length levels) - 1) (currentIndex + steps))
      in arrayAt levels newIndex)"

fun privacyRank :: "PrivacyLevel \<Rightarrow> nat" where
  "privacyRank Low = 0"
| "privacyRank Medium = 1"
| "privacyRank High = 2"
| "privacyRank Maximum = 3"

subsection \<open>Adapting the level to a context\<close>

fun threatToPrivacyLevel :: "ThreatLevel \<Rightarrow> PrivacyLevel" where
  "threatToPrivacyLevel TLow = Low"
| "threatToPrivacyLevel TMedium = Medium"
| "threatToPrivacyLevel THigh = High"
| "threatToPrivacyLevel TCritical = Maximum"

fun adjustments :: "TransactionType \<Rightarrow> int" where
  "adjustments Payment = 0"
| "adjustments Reputation = -1"
| "adjustments Compliance = 1"
| "adjustments Governance = -1"

definition adjustForTransactionType :: "PrivacyLevel \<Rightarrow> TransactionType \<Rightarrow> PrivacyLevel option" where
  "adjustForTransactionType currentLevel ty =
     (let adjustment = orDefault (Some (adjustments ty)) 0
      in adjustLevel currentLevel adjustment)"

definition adjustForAmount :: "PrivacyLevel \<Rightarrow> int \<Rightarrow> PrivacyLevel option" where
  "adjustForAmount currentLevel amount =
     (if amount > 10000000 then adjustLevel currentLevel 1
      else if amount > 1000000 then adjustLevel currentLevel 0
      else adjustLevel currentLevel (-1))"

definition adjustForNetwork :: "PrivacyLevel \<Rightarrow> NetworkConditions \<Rightarrow> PrivacyLevel option" where
  "adjustForNetwork currentLevel conditions =
     (if congestion conditions > 0.8 then adjustLevel currentLevel (-1)
      else if nc_networkHealth conditions < 0.7 then adjustLevel currentLevel 1
      else Some currentLevel)"

fun threatValues :: "ThreatLevel \<Rightarrow> real" where
  "threatValues TLow = 1"
| "threatValues TMedium = 2"
| "threatValues THigh = 3"
| "threatValues TCritical = 4"

text \<open>Called on a slice of a history that is not empty.\<close>

definition calculateAverageThreat :: "ThreatLevel list \<Rightarrow> ThreatLevel" where
  "calculateAverageThreat threats =
     (let avg = foldl (\<lambda>sum t. sum + threatValues t) 0 threats / real (length threats)
      in if avg \<ge> 3.5 then TCritical
         else if avg \<ge> 2.5 then THigh
         else if avg \<ge> 1.5 then TMedium
         else TLow)"

definition assessThreat :: "PrivacyAdapter \<Rightarrow> PrivacyContext \<Rightarrow> ThreatLevel" where
  "assessThreat a context =
     (let pseudonymKey = bytesToHex (userPseudonym context);
          history = (case threatHistory a pseudonymKey of None \<Rightarrow> [] | Some h \<Rightarrow> h)
      in if length history = 0 then TMedium
         else let recentThreats = drop (length history - 10) history;
                  avgThreat = calculateAverageThreat recentThreats
              in if transactionType context = Compliance then THigh
                 else if transactionType context = Governance then TMedium
                 else avgThreat)"

text \<open>
  A level that \<open>adjustLevel\<close> leaves \<open>undefined\<close>, or a configuration that the map
  does not hold, is the result \<open>None\<close>. \<open>if (context.amount)\<close> is false for
  \<open>undefined\<close> and for \<open>0n\<close>.
\<close>

definition adaptPrivacyLevel :: "PrivacyAdapter \<Rightarrow> PrivacyContext \<Rightarrow> PrivacyConfiguration option" where
  "adaptPrivacyLevel a context =
     (let threat = (case threatLevel context of Some t \<Rightarrow> t | None \<Rightarrow> assessThreat a context);
          baseLevel = Some (threatToPrivacyLevel threat);
          baseLevel = Option.bind baseLevel (\<lambda>l. adjustForTransactionType l (transactionType context));
          baseLevel = (case ctx_amount context of
                         None \<Rightarrow> baseLevel
                       | Some amt \<Rightarrow> if amt = 0 then baseLevel
                                     else Option.bind baseLevel (\<lambda>l. adjustForAmount l amt));
          baseLevel = (case networkConditions context of
                         None \<Rightarrow> baseLevel
                       | Some nc \<Rightarrow> Option.bind baseLevel (\<lambda>l. adjustForNetwork l nc))
      in Option.bind baseLevel (\<lambda>l.
           let config = (case privacyConfigs a l of Some c \<Rightarrow> Some c | None \<Rightarrow> privacyConfigs a Medium)
           in map_option (\<lambda>c. c\<lparr>level := l\<rparr>) config))"

text \<open>\<open>history.push(threat)\<close>, then \<open>history.shift()\<close> when more than 50 are held.\<close>

definition updateThreatHistory :: "PrivacyAdapter \<Rightarrow> byte list \<Rightarrow> ThreatLevel \<Rightarrow> PrivacyAdapter" where
  "updateThreatHistory a pseudonym threat =
     (let key = bytesToHex pseudonym;
          history = (case threatHistory a key of None \<Rightarrow> [] | Some h \<Rightarrow> h);
          history = history @ [threat];
          history = (if length history > 50 then tl history else history)
      in a\<lparr>threatHistory := (threatHistory a)(key \<mapsto> history)\<rparr>)"

section \<open>Reputation learner (src/src/intelligence/reputation-learner.ts)\<close>

text \<open>
  The interface \<open>PaymentPattern\<close> of this file is the record \<open>LearnerPayment\<close>; the
  methods of \<open>AIReputationLearner\<close> and of \<open>ReputationModel\<close> that share a name with
  a method of the fraud detector carry the prefix \<open>rl_\<close> or \<open>model_\<close>.
\<close>

record LearnerPayment =
  lp_pseudonym :: "byte list"
  lp_amount :: int
  lp_timestamp :: int
  lp_chain :: string
  success :: bool

record ReputationPrediction =
  score :: jsnum
  rp_confidence :: real
  factors :: "string list"

record FeatureVector =
  paymentCount :: jsnum
  totalAmount :: jsnum
  fv_avgAmount :: jsnum
  fv_successRate :: jsnum
  avgInterval :: jsnum
  chainDiversity :: jsnum
  recentActivity :: jsnum

text \<open>
  The state of the learner: the weights of its model (a \<open>Map\<close>, in insertion
  order) and the flag \<open>isTrained\<close>.
\<close>

record AIReputationLearner =
  weights :: "(string \<times> jsnum) list"
  isTrained :: bool

definition newAIReputationLearner :: AIReputationLearner where
  "newAIReputationLearner = \<lparr>weights = [], isTrained = False\<rparr>"

definition createEmptyFeatures :: FeatureVector where
  "createEmptyFeatures =
     \<lparr>paymentCount = Num 0, totalAmount = Num 0, fv_avgAmount = Num 0, fv_successRate = Num 0,
      avgInterval = Num 0, chainDiversity = Num 0, recentActivity = Num 0\<rparr>"

definition calculateRecentActivity :: "int \<Rightarrow> LearnerPayment list \<Rightarrow> real" where
  "calculateRecentActivity now ps =
     (if length ps = 0 then 0
      else let recentPayments = filter (\<lambda>p. now - lp_timestamp p < 7 * 24 * 60 * 60 * 1000) ps
           in min 1.0 (real (length recentPayments) / 10))"

definition rl_extractFeatures :: "int \<Rightarrow> LearnerPayment list \<Rightarrow> FeatureVector" where
  "rl_extractFeatures now ps =
     (if length ps = 0 then createEmptyFeatures
      else let amounts = map (\<lambda>p. real_of_int (lp_amount p)) ps;
               timestamps = map (\<lambda>p. real_of_int (lp_timestamp p)) ps;
               successCount = length (filter success ps);
               avgAmt = foldl (+) 0 amounts / real (length amounts);
               totalAmt = foldl (+) 0 amounts;
               count = length ps;
               rate = real successCount / real count;
               timeSpan = fold max (tl timestamps) (hd timestamps)
                            - fold min (tl timestamps) (hd timestamps);
               avgInt = (if timeSpan > 0 then timeSpan / real count else 0);
               uniqueChains = length (remdups (map lp_chain ps));
               diversity = real uniqueChains / 7
           in \<lparr>paymentCount = Num (real count), totalAmount = Num totalAmt,
               fv_avgAmount = Num avgAmt, fv_successRate = Num rate, avgInterval = Num avgInt,
               chainDiversity = Num diversity,
               recentActivity = Num (calculateRecentActivity now ps)\<rparr>)"

definition extractFeaturesFromPseudonym :: "(byte list \<Rightarrow> byte list) \<Rightarrow> byte list \<Rightarrow> FeatureVector" where
  "extractFeaturesFromPseudonym H pseudonym =
     (let hash = H pseudonym
      in \<lparr>paymentCount = hashToNumber hash 0 100,
          totalAmount = hashToNumber hash 1 1000000,
          fv_avgAmount = hashToNumber hash 2 10000,
          fv_successRate = divn (hashToNumber hash 3 100) 100,
          avgInterval = hashToNumber hash 4 86400,
          chainDiversity = divn (hashToNumber hash 5 100) 100,
          recentActivity = divn (hashToNumber hash 6 100) 100\<rparr>)"

definition identifyFactors :: "FeatureVector \<Rightarrow> string list" where
  "identifyFactors features =
     (let fs = (if gt (paymentCount features) 10 then [''high_activity''] else []) @
               (if gt (fv_successRate features) 0.95 then [''reliable''] else []) @
               (if gt (chainDiversity features) 0.5 then [''multi_chain''] else []) @
               (if gt (recentActivity features) 0.7 then [''recent_activity''] else []) @
               (if gt (fv_avgAmount features) 100000 then [''high_value''] else [])
      in if length fs > 0 then fs else [''new_user''])"

text \<open>
  \<open>features[factor]\<close>: the field of that name; any other key reads \<open>undefined\<close>,
  which the arithmetic of \<open>predict\<close> turns into \<open>NaN\<close>.
\<close>

definition featureOf :: "FeatureVector \<Rightarrow> string \<Rightarrow> jsnum" where
  "featureOf features factor =
     (if factor = ''paymentCount'' then paymentCount features
      else if factor = ''totalAmount'' then totalAmount features
      else if factor = ''avgAmount'' then fv_avgAmount features
      else if factor = ''successRate'' then fv_successRate features
      else if factor = ''avgInterval'' then avgInterval features
      else if factor = ''chainDiversity'' then chainDiversity features
      else if factor = ''recentActivity'' then recentActivity features
      else NaN)"

fun addn :: "jsnum \<Rightarrow> jsnum \<Rightarrow> jsnum" where
  "addn (Num x) (Num y) = Num (x + y)"
| "addn a b = NaN"

fun muln :: "jsnum \<Rightarrow> jsnum \<Rightarrow> jsnum" where
  "muln (Num x) (Num y) = Num (x * y)"
| "muln a b = NaN"

text \<open>\<open>Math.max(lo, Math.min(hi, a))\<close>: \<open>NaN\<close> stays \<open>NaN\<close>.\<close>

fun clampn :: "real \<Rightarrow> real \<Rightarrow> jsnum \<Rightarrow> jsnum" where
  "clampn lo hi NaN = NaN"
| "clampn lo hi (Num x) = Num (max lo (min hi x))"

definition model_predict :: "(string \<times> jsnum) list \<Rightarrow> FeatureVector \<Rightarrow> jsnum \<times> real" where
  "model_predict ws features =
     (let sc = foldl (\<lambda>sc (factor, weight).
                        addn sc (muln (muln (featureOf features factor) weight) (Num 10)))
                     (Num 50) ws;
          sc = clampn 0 100 sc;
          dataQuality = (case paymentCount features of
                           NaN \<Rightarrow> 0
                         | Num n \<Rightarrow> if n > 0 then min 1.0 (n / 10) else 0);
          confidence = 0.5 + dataQuality * 0.5
      in (sc, confidence))"

text \<open>
  \<open>predict(pseudonym, paymentHistory?)\<close>: the optional history is an option. An
  array, empty or not, is truthy, so the first test asks whether it was passed.
\<close>

definition rl_predict :: "(byte list \<Rightarrow> byte list) \<Rightarrow> int \<Rightarrow> AIReputationLearner \<Rightarrow> byte list
    \<Rightarrow> LearnerPayment list option \<Rightarrow> ReputationPrediction" where
  "rl_predict H now l pseudonym paymentHistory =
     (if \<not> isTrained l \<and> paymentHistory = None
      then \<lparr>score = Num 50, rp_confidence = 0.5, factors = [''insufficient_data'']\<rparr>
      else let features = (case paymentHistory of
                             Some ph \<Rightarrow> rl_extractFeatures now ph
                           | None \<Rightarrow> extractFeaturesFromPseudonym H pseudonym);
               prediction = model_predict (weights l) features
           in \<lparr>score = fst prediction, rp_confidence = snd prediction,
               factors = identifyFactors features\<rparr>)"

section \<open>The bridge (src/unnamed/part_003, the module integration/x402-ai-bridge)\<close>

record X402PaymentRequest =
  stealthAddress :: "byte list"
  req_amount :: int
  req_targetChain :: "string option"
  req_privacyLevel :: "PrivacyLevel option"
  req_userPseudonym :: "byte list"

record OptimizedX402Payment =
  route :: PaymentRoute
  privacyConfig :: PrivacyConfiguration
  fraudAssessment :: FraudAssessment
  recommendedChain :: string
  estimatedCost :: int

record X402AIBridge =
  router :: AIPaymentRouter
  privacyAdapter :: PrivacyAdapter
  fraudDetector :: FraudDetector

definition newX402AIBridge :: "int \<Rightarrow> X402AIBridge" where
  "newX402AIBridge now =
     \<lparr>router = newAIPaymentRouter now, privacyAdapter = newPrivacyAdapter,
      fraudDetector = newFraudDetector\<rparr>"

text \<open>\<open>mapping[riskLevel] || 'medium'\<close>: the table holds all four levels.\<close>

fun fraudToThreat :: "RiskLevel \<Rightarrow> ThreatLevel" where
  "fraudToThreat RLow = TLow"
| "fraudToThreat RMedium = TMedium"
| "fraudToThreat RHigh = THigh"
| "fraudToThreat RCritical = TCritical"

text \<open>\<open>gasCost * BigInt(Math.ceil(privacy.proofSize / 1024))\<close>, a product of bigints.\<close>

definition calculateCost :: "PaymentRoute \<Rightarrow> PrivacyConfiguration \<Rightarrow> int" where
  "calculateCost rt privacy =
     (let gasCost = estimatedGas rt;
          privacyMultiplier = proofSize privacy / 1024
      in gasCost * \<lceil>privacyMultiplier\<rceil>)"

text \<open>
  \<open>optimizePayment\<close>. The commitment handed to the detector is \<open>new Uint8Array(32)\<close>,
  32 zero bytes. A configuration that is \<open>undefined\<close> has no \<open>proofSize\<close>, and
  \<open>BigInt(NaN)\<close> throws a \<open>RangeError\<close>.
\<close>

datatype bridge_error = DetectorError error | RangeError

definition optimizePayment :: "(byte list \<Rightarrow> byte list) \<Rightarrow> int \<Rightarrow> X402AIBridge \<Rightarrow> X402PaymentRequest
    \<Rightarrow> bridge_error + (OptimizedX402Payment \<times> X402AIBridge)" where
  "optimizePayment H now b request =
     (let rt = findOptimalRoute (router b)
                 \<lparr>ro_amount = req_amount request,
                  ro_targetChain = req_targetChain request,
                  ro_privacyLevel = (case req_privacyLevel request of None \<Rightarrow> High | Some l \<Rightarrow> l),
                  maxGasPrice = None, preferredChains = None\<rparr>;
          paymentData = \<lparr>pd_pseudonym = req_userPseudonym request,
                         pd_amount = req_amount request,
                         pd_timestamp = now,
                         pd_chain = chain rt,
                         commitment = replicate 32 0\<rparr>
      in case assessRisk H (fraudDetector b) paymentData \<lparr>preservePrivacy = True, sensitivity = 0.5\<rparr> of
           Inl e \<Rightarrow> Inl (DetectorError e)
         | Inr (assessment, d') \<Rightarrow>
             (let privacyContext = \<lparr>userPseudonym = req_userPseudonym request,
                                     transactionType = Payment,
                                     ctx_amount = Some (req_amount request),
                                     threatLevel = Some (fraudToThreat (riskLevel assessment)),
                                     networkConditions = None\<rparr>
              in case adaptPrivacyLevel (privacyAdapter b) privacyContext of
                   None \<Rightarrow> Inl RangeError
                 | Some config \<Rightarrow>
                     Inr (\<lparr>route = rt, privacyConfig = config, fraudAssessment = assessment,
                           recommendedChain = chain rt,
                           estimatedCost = calculateCost rt config\<rparr>,
                          b\<lparr>fraudDetector := d'\<rparr>)))"

section \<open>Vocabulary of the properties\<close>

text \<open>The last \<open>n\<close> elements of a list (all of it when it is shorter).\<close>

definition lastN :: "nat \<Rightarrow> 'a list \<Rightarrow> 'a list" where
  "lastN n xs = drop (length xs - n) xs"

text \<open>What \<open>map.get(key) || []\<close> reads from the two history maps.\<close>

definition routeHistoryOf :: "AIPaymentRouter \<Rightarrow> string \<Rightarrow> PaymentRoute list" where
  "routeHistoryOf r c = (case routingHistory r c of None \<Rightarrow> [] | Some h \<Rightarrow> h)"

definition threatHistoryOf :: "PrivacyAdapter \<Rightarrow> string \<Rightarrow> ThreatLevel list" where
  "threatHistoryOf a k = (case threatHistory a k of None \<Rightarrow> [] | Some h \<Rightarrow> h)"

text \<open>A sequence of record calls, applied in order.\<close>

definition recordRoutes :: "AIPaymentRouter \<Rightarrow> (string \<times> PaymentRoute) list \<Rightarrow> AIPaymentRouter" where
  "recordRoutes r calls = foldl (\<lambda>r (c, rt). updateHistory r c rt) r calls"

definition recordThreats :: "PrivacyAdapter \<Rightarrow> (byte list \<times> ThreatLevel) list \<Rightarrow> PrivacyAdapter" where
  "recordThreats a calls = foldl (\<lambda>a (p, t). updateThreatHistory a p t) a calls"

text \<open>The entries that a sequence of calls recorded under one key, oldest first.\<close>

definition routesRecordedFor :: "string \<Rightarrow> (string \<times> PaymentRoute) list \<Rightarrow> PaymentRoute list" where
  "routesRecordedFor c calls = map snd (filter (\<lambda>(c', rt). c' = c) calls)"

definition threatsRecordedFor :: "string \<Rightarrow> (byte list \<times> ThreatLevel) list \<Rightarrow> ThreatLevel list" where
  "threatsRecordedFor k calls = map snd (filter (\<lambda>(p, t). bytesToHex p = k) calls)"

text \<open>
  The ranked candidates of \<open>findOptimalRoute\<close> (its \<open>routes\<close> after the sort), and
  the two filters taken together for a ceiling \<open>m\<close>.
\<close>

definition candidates :: "AIPaymentRouter \<Rightarrow> RoutingOptions \<Rightarrow> PaymentRoute list" where
  "candidates r options =
     sort_key (\<lambda>a. - routeScore a)
       (analyzeChains r options
          (case preferredChains options of None \<Rightarrow> sevenChains | Some cs \<Rightarrow> cs))"

definition passes :: "RoutingOptions \<Rightarrow> int \<Rightarrow> PaymentRoute \<Rightarrow> bool" where
  "passes options m x =
     (privacyScore x \<ge> getPrivacyScore (ro_privacyLevel options) \<and> estimatedGas x \<le> m)"

text \<open>A stored pattern after \<open>chains.add(c)\<close>.\<close>

definition withChain :: "PaymentPattern \<Rightarrow> string \<Rightarrow> PaymentPattern" where
  "withChain pat c = pat\<lparr>chains := setAdd (chains pat) c\<rparr>"

section \<open>Concrete inputs\<close>

text \<open>
  A router whose only record is a Solana route with success rate 0.5, and a
  request at level high, restricted to BSC and Solana, with the ceiling \<open>0n\<close>.
\<close>

definition poorSolanaRoute :: PaymentRoute where
  "poorSolanaRoute = \<lparr>chain = ''solana'', estimatedGas = 5000, privacyScore = 0.96,
     successRate = 0.5, estimatedTime = 4800\<rparr>"

definition routerAfterPoorSolana :: AIPaymentRouter where
  "routerAfterPoorSolana = updateHistory (newAIPaymentRouter 0) ''solana'' poorSolanaRoute"

definition zeroCeiling :: RoutingOptions where
  "zeroCeiling = \<lparr>ro_amount = 1, ro_targetChain = None, ro_privacyLevel = High,
     maxGasPrice = Some 0, preferredChains = Some [''bsc'', ''solana'']\<rparr>"

definition bscRoute :: PaymentRoute where
  "bscRoute = \<lparr>chain = ''bsc'', estimatedGas = 21000, privacyScore = 0.6,
     successRate = 0.97, estimatedTime = 36000\<rparr>"

definition solanaRoute :: PaymentRoute where
  "solanaRoute = \<lparr>chain = ''solana'', estimatedGas = 5000, privacyScore = 0.96,
     successRate = 0, estimatedTime = 4800\<rparr>"

text \<open>The same request with the ceiling \<open>6000n\<close>.\<close>

definition ceiling6000 :: RoutingOptions where
  "ceiling6000 = zeroCeiling\<lparr>maxGasPrice := Some 6000\<rparr>"

text \<open>
  A payment of the pseudonym \<open>01ab\<close> on a given chain, the options of the direct
  mode, and a detector that has seen one payment of that pseudonym on Ethereum.
\<close>

definition samplePayment :: "string \<Rightarrow> PaymentData" where
  "samplePayment c = \<lparr>pd_pseudonym = [0x01, 0xab], pd_amount = 100, pd_timestamp = 1000,
     pd_chain = c, commitment = []\<rparr>"

definition directOptions :: DetectionOptions where
  "directOptions = \<lparr>preservePrivacy = False, sensitivity = 0.5\<rparr>"

definition seenOnEthereum :: FraudDetector where
  "seenOnEthereum = updatePattern 0 newFraudDetector (samplePayment ''ethereum'')"

definition ethereumPattern :: PaymentPattern where
  "ethereumPattern = \<lparr>pp_pseudonym = [0x01, 0xab], payments = [samplePayment ''ethereum''],
     pp_frequency = 0.1, pp_avgAmount = 100, chains = [''ethereum''], pp_lastUpdated = 0\<rparr>"

text \<open>A digest of 32 bytes, all 255, standing for a hash whose bytes are maximal.\<close>

definition allOnes :: "byte list \<Rightarrow> byte list" where
  "allOnes bs = replicate 32 255"

text \<open>One successful payment of a million units on Ethereum at time 0.\<close>

definition onePayment :: LearnerPayment where
  "onePayment = \<lparr>lp_pseudonym = [], lp_amount = 1000000, lp_timestamp = 0,
     lp_chain = ''ethereum'', success = True\<rparr>"

text \<open>Some features with a frequency of 0.85 and an irregular time pattern.\<close>

definition busyFeatures :: FeatureSet where
  "busyFeatures = \<lparr>amountCategory = Num 2, timePattern = Num 0, chainPattern = Num 6,
     fs_frequency = Num 0.85, amountDeviation = Num 0.2\<rparr>"

text \<open>A request of twenty million units with no level and no target chain.\<close>

definition sampleRequest :: X402PaymentRequest where
  "sampleRequest = \<lparr>stealthAddress = [], req_amount = 20000000, req_targetChain = None,
     req_privacyLevel = None, req_userPseudonym = [0x01, 0xab]\<rparr>"

text \<open>The options that the bridge builds from that request, and a route by its fields.\<close>

definition sampleOptions :: RoutingOptions where
  "sampleOptions = \<lparr>ro_amount = 20000000, ro_targetChain = None, ro_privacyLevel = High,
     maxGasPrice = None, preferredChains = None\<rparr>"

definition mkRoute :: "string \<Rightarrow> int \<Rightarrow> real \<Rightarrow> real \<Rightarrow> real \<Rightarrow> PaymentRoute" where
  "mkRoute c g p s t =
     \<lparr>chain = c, estimatedGas = g, privacyScore = p, successRate = s, estimatedTime = t\<rparr>"

section \<open>The risk level of a score\<close>

text \<open>
  C3. The mapping from a score to a risk level is monotone (a larger score never
  maps to a lower level), and its cut points are inclusive from below: scores
  from 0.8 are critical, from 0.6 and below 0.8 high, from 0.4 and below 0.6
  medium, below 0.4 low. In particular 0.8 itself is critical.
\<close>

theorem scoreToLevel_monotone_boundaries:
  "(s \<le> t \<longrightarrow> levelRank (scoreToLevel s) \<le> levelRank (scoreToLevel t))
   \<and> (s \<ge> 0.8 \<longrightarrow> scoreToLevel s = RCritical)
   \<and> (0.6 \<le> s \<and> s < 0.8 \<longrightarrow> scoreToLevel s = RHigh)
   \<and> (0.4 \<le> s \<and> s < 0.6 \<longrightarrow> scoreToLevel s = RMedium)
   \<and> (s < 0.4 \<longrightarrow> scoreToLevel s = RLow)
   \<and> scoreToLevel 0.8 = RCritical"
  by (simp add: scoreToLevel_def)

theorem scoreToLevel_monotone_boundaries_witness:
  "levelRank (scoreToLevel 0.79999) \<le> levelRank (scoreToLevel 0.8)
   \<and> scoreToLevel 0.79999 = RHigh \<and> scoreToLevel 0.8 = RCritical
   \<and> scoreToLevel 0.5 = RMedium \<and> scoreToLevel 0.1 = RLow"
  using scoreToLevel_monotone_boundaries [of "0.79999" "0.8"]
    scoreToLevel_monotone_boundaries [of "0.5" "0.5"]
    scoreToLevel_monotone_boundaries [of "0.1" "0.1"]
  by simp

section \<open>Anomalies and sensitivity\<close>

lemma gate_mono:
  "(s1::real) \<le> s2 \<Longrightarrow>
   set (if c \<and> s1 > g then [a] else []) \<subseteq> set (if c \<and> s2 > g then [a] else [])"
  by auto

text \<open>
  C4. For fixed features, every anomaly detected at a sensitivity is detected at
  every larger sensitivity.
\<close>

theorem detectAnomalies_monotone:
  "s1 \<le> s2 \<Longrightarrow> set (detectAnomalies f s1) \<subseteq> set (detectAnomalies f s2)"
  unfolding detectAnomalies_def set_append
  by (intro Un_mono gate_mono)

theorem detectAnomalies_monotone_witness:
  "set (detectAnomalies busyFeatures 0.5) \<subseteq> set (detectAnomalies busyFeatures 0.65)
   \<and> detectAnomalies busyFeatures 0.5 = [''high_frequency'']
   \<and> detectAnomalies busyFeatures 0.65 = [''high_frequency'', ''irregular_timing'']"
proof -
  have le: "(0.5::real) \<le> 0.65" by simp
  show ?thesis
    using detectAnomalies_monotone [OF le, of busyFeatures]
    by (simp add: detectAnomalies_def busyFeatures_def)
qed

section \<open>Stepping a privacy level\<close>

lemma indexOf_levels: "indexOf levels l = int (privacyRank l)"
  by (cases l) (simp_all add: indexOf_def levels_def)

lemma adjustLevel_eq:
  "adjustLevel l steps = Some (levels ! nat (max 0 (min 3 (int (privacyRank l) + steps))))"
  by (simp add: adjustLevel_def Let_def indexOf_levels arrayAt_def) (simp add: levels_def)

lemma rank_nth:
  assumes "n < 4"
  shows "privacyRank (levels ! n) = n"
proof -
  from assms consider "n = 0" | "n = 1" | "n = 2" | "n = 3" by linarith
  then show ?thesis by cases (simp_all add: levels_def)
qed

lemma adjustLevel_rank:
  "\<exists>l'. adjustLevel l steps = Some l'
        \<and> int (privacyRank l') = max 0 (min 3 (int (privacyRank l) + steps))"
proof -
  let ?i = "max 0 (min 3 (int (privacyRank l) + steps))"
  have "nat ?i < 4" by simp
  from rank_nth [OF this] show ?thesis by (simp add: adjustLevel_eq)
qed

lemma privacyRank_le: "int (privacyRank l) \<le> 3"
  by (cases l) simp_all

text \<open>
  C5. Stepping a level by an integer offset (the code steps by -1, 0 and 1)
  always yields one of the four levels, the one whose rank is the sum clamped
  to the ranks 0 to 3: an offset of 3 or more yields maximum from every level,
  an offset of -3 or less yields low, and no offset wraps around.
\<close>

theorem adjustLevel_clamps:
  "(\<exists>l'. adjustLevel l steps = Some l'
         \<and> int (privacyRank l') = max 0 (min 3 (int (privacyRank l) + steps)))
   \<and> (3 \<le> steps \<longrightarrow> adjustLevel l steps = Some Maximum)
   \<and> (steps \<le> -3 \<longrightarrow> adjustLevel l steps = Some Low)"
proof (intro conjI impI)
  show "\<exists>l'. adjustLevel l steps = Some l'
         \<and> int (privacyRank l') = max 0 (min 3 (int (privacyRank l) + steps))"
    by (rule adjustLevel_rank)
next
  assume "3 \<le> steps"
  then have "max 0 (min 3 (int (privacyRank l) + steps)) = 3" by simp
  then show "adjustLevel l steps = Some Maximum"
    by (simp add: adjustLevel_eq levels_def)
next
  assume "steps \<le> -3"
  with privacyRank_le [of l] have "max 0 (min 3 (int (privacyRank l) + steps)) = 0" by simp
  then show "adjustLevel l steps = Some Low"
    by (simp add: adjustLevel_eq levels_def)
qed

theorem adjustLevel_clamps_witness:
  "adjustLevel High 5 = Some Maximum \<and> adjustLevel High (-7) = Some Low
   \<and> adjustLevel Low 1000 = Some Maximum \<and> adjustLevel Maximum (-1000) = Some Low
   \<and> adjustLevel Medium 1 = Some High"
  using adjustLevel_clamps [of High 5] adjustLevel_clamps [of High "-7"]
    adjustLevel_clamps [of Low 1000] adjustLevel_clamps [of Maximum "-1000"]
  by (simp add: adjustLevel_eq levels_def)

section \<open>Bounded histories\<close>

lemma bytesToHex_sample: "bytesToHex [0x01, 0xab :: byte] = ''01ab''"
  by (simp add: bytesToHex_def padStart_def toString16_def hexDigit_def)

lemma lastN_snoc:
  assumes "0 < n"
  shows "lastN n (xs @ [x]) = (let h = lastN n xs @ [x] in if length h > n then tl h else h)"
proof (cases "n \<le> length xs")
  case True
  let ?k = "length xs - n"
  have ne: "drop ?k xs \<noteq> []" using True assms by simp
  have len: "length (drop ?k xs @ [x]) > n" using True by simp
  have "lastN n (xs @ [x]) = drop (Suc ?k) xs @ [x]"
    using True assms by (simp add: lastN_def Suc_diff_le)
  also have "drop (Suc ?k) xs = tl (drop ?k xs)"
    by (simp only: drop_Suc drop_tl)
  also have "tl (drop ?k xs) @ [x] = tl (drop ?k xs @ [x])"
    using ne by simp
  finally show ?thesis using len by (simp only: lastN_def Let_def if_True)
next
  case False
  then show ?thesis by (simp add: lastN_def Let_def)
qed

lemma length_lastN: "length (lastN n xs) \<le> n"
  by (simp add: lastN_def)

lemma routeHistoryOf_update:
  "routeHistoryOf (updateHistory r c' rt) c =
     (if c' = c then (let h = routeHistoryOf r c @ [rt] in if length h > 100 then tl h else h)
      else routeHistoryOf r c)"
  by (simp add: routeHistoryOf_def updateHistory_def Let_def)

lemma threatHistoryOf_update:
  "threatHistoryOf (updateThreatHistory a p t) k =
     (if bytesToHex p = k
      then (let h = threatHistoryOf a k @ [t] in if length h > 50 then tl h else h)
      else threatHistoryOf a k)"
  by (simp add: threatHistoryOf_def updateThreatHistory_def Let_def)

lemma routes_fifo:
  "routeHistoryOf (recordRoutes (newAIPaymentRouter now) calls) c
     = lastN 100 (routesRecordedFor c calls)"
proof (induction calls rule: rev_induct)
  case Nil
  show ?case
    by (simp add: recordRoutes_def routesRecordedFor_def lastN_def routeHistoryOf_def
        newAIPaymentRouter_def)
next
  case (snoc call calls)
  obtain c' rt where call: "call = (c', rt)" by (cases call)
  have step: "recordRoutes (newAIPaymentRouter now) (calls @ [call])
                = updateHistory (recordRoutes (newAIPaymentRouter now) calls) c' rt"
    by (simp add: recordRoutes_def call)
  show ?case
  proof (cases "c' = c")
    case True
    have "routesRecordedFor c (calls @ [call]) = routesRecordedFor c calls @ [rt]"
      using True by (simp add: routesRecordedFor_def call)
    then show ?thesis using True snoc.IH
      by (simp add: step routeHistoryOf_update lastN_snoc)
  next
    case False
    have "routesRecordedFor c (calls @ [call]) = routesRecordedFor c calls"
      using False by (simp add: routesRecordedFor_def call)
    then show ?thesis using False snoc.IH
      by (simp add: step routeHistoryOf_update)
  qed
qed

lemma threats_fifo:
  "threatHistoryOf (recordThreats newPrivacyAdapter calls) k
     = lastN 50 (threatsRecordedFor k calls)"
proof (induction calls rule: rev_induct)
  case Nil
  show ?case
    by (simp add: recordThreats_def threatsRecordedFor_def lastN_def threatHistoryOf_def
        newPrivacyAdapter_def)
next
  case (snoc call calls)
  obtain p t where call: "call = (p, t)" by (cases call)
  have step: "recordThreats newPrivacyAdapter (calls @ [call])
                = updateThreatHistory (recordThreats newPrivacyAdapter calls) p t"
    by (simp add: recordThreats_def call)
  show ?case
  proof (cases "bytesToHex p = k")
    case True
    have "threatsRecordedFor k (calls @ [call]) = threatsRecordedFor k calls @ [t]"
      using True by (simp add: threatsRecordedFor_def call)
    then show ?thesis using True snoc.IH
      by (simp add: step threatHistoryOf_update lastN_snoc)
  next
    case False
    have "threatsRecordedFor k (calls @ [call]) = threatsRecordedFor k calls"
      using False by (simp add: threatsRecordedFor_def call)
    then show ?thesis using False snoc.IH
      by (simp add: step threatHistoryOf_update)
  qed
qed

text \<open>
  C2. After any sequence of \<open>updateHistory\<close> calls on a new router, the history
  of every chain is the last 100 routes recorded for that chain, in the order
  of recording, and so holds at most 100 entries. After any sequence of
  \<open>updateThreatHistory\<close> calls on a new adapter, the history under every key is
  the last 50 threats recorded for the pseudonyms with that key, and so holds at
  most 50 entries.
\<close>

theorem histories_bounded_fifo:
  "routeHistoryOf (recordRoutes (newAIPaymentRouter now) rcalls) c
      = lastN 100 (routesRecordedFor c rcalls)
   \<and> length (routeHistoryOf (recordRoutes (newAIPaymentRouter now) rcalls) c) \<le> 100
   \<and> threatHistoryOf (recordThreats newPrivacyAdapter tcalls) k
      = lastN 50 (threatsRecordedFor k tcalls)
   \<and> length (threatHistoryOf (recordThreats newPrivacyAdapter tcalls) k) \<le> 50"
  by (simp only: routes_fifo threats_fifo length_lastN simp_thms)

theorem histories_bounded_fifo_witness:
  "routeHistoryOf (recordRoutes (newAIPaymentRouter 0)
       (replicate 100 (''solana'', poorSolanaRoute)
          @ [(''solana'', solanaRoute), (''bsc'', bscRoute)]))
     ''solana'' = replicate 99 poorSolanaRoute @ [solanaRoute]
   \<and> threatHistoryOf (recordThreats newPrivacyAdapter
       (replicate 50 ([0x01, 0xab], TLow) @ [([0x01, 0xab], THigh)])) ''01ab''
     = replicate 49 TLow @ [THigh]"
  using histories_bounded_fifo [of 0
      "replicate 100 (''solana'', poorSolanaRoute)
         @ [(''solana'', solanaRoute), (''bsc'', bscRoute)]"
      "''solana''" "replicate 50 ([0x01, 0xab], TLow) @ [([0x01, 0xab], THigh)]" "''01ab''"]
  by (simp add: routesRecordedFor_def threatsRecordedFor_def lastN_def bytesToHex_sample)

section \<open>Risk assessment and the stored patterns\<close>

lemma setAdd_idem: "setAdd (setAdd s x) x = setAdd s x"
  by (simp add: setAdd_def)

lemma assessRisk_private:
  "preservePrivacy options \<Longrightarrow> \<exists>a. assessRisk H d payment options = Inr (a, d)"
  by (simp add: assessRisk_def extractFeatures_def Let_def)

lemma extractDirectFeatures_None:
  "patterns d (bytesToHex (pd_pseudonym payment)) = None
   \<Longrightarrow> extractDirectFeatures d payment = Inl TypeError"
  by (simp add: extractDirectFeatures_def Let_def)

lemma extractDirectFeatures_Some:
  assumes "patterns d (bytesToHex (pd_pseudonym payment)) = Some pat"
  shows "extractDirectFeatures d payment =
     Inr (\<lparr>amountCategory = Num (categorizeAmount (pd_amount payment)),
           timePattern = Num (analyzeTimePattern pat (pd_timestamp payment)),
           chainPattern = Num (real (length (setAdd (chains pat) (pd_chain payment)))),
           fs_frequency = Num (pp_frequency pat),
           amountDeviation = calculateDeviation pat (pd_amount payment)\<rparr>,
          d\<lparr>patterns := (patterns d)(bytesToHex (pd_pseudonym payment)
                 \<mapsto> withChain pat (pd_chain payment))\<rparr>)"
  using assms
  by (simp add: extractDirectFeatures_def Let_def analyzeChainPattern_def withChain_def
      calculateDeviation_def)

lemma withChain_idem: "withChain (withChain pat c) c = withChain pat c"
  by (simp add: withChain_def setAdd_idem)

lemma withChain_fields:
  "analyzeTimePattern (withChain pat c) t = analyzeTimePattern pat t"
  "pp_frequency (withChain pat c) = pp_frequency pat"
  "calculateDeviation (withChain pat c) a = calculateDeviation pat a"
  "chains (withChain pat c) = setAdd (chains pat) c"
  by (simp_all add: withChain_def analyzeTimePattern_def calculateDeviation_def)

lemma extractDirectFeatures_twice:
  assumes "extractDirectFeatures d payment = Inr (f, d')"
  shows "extractDirectFeatures d' payment = Inr (f, d')"
proof -
  let ?k = "bytesToHex (pd_pseudonym payment)"
  from assms obtain pat where pat: "patterns d ?k = Some pat"
    by (cases "patterns d ?k") (simp_all add: extractDirectFeatures_None)
  note first = extractDirectFeatures_Some [OF pat]
  from first assms
  have d': "d' = d\<lparr>patterns := (patterns d)(?k \<mapsto> withChain pat (pd_chain payment))\<rparr>"
    and f: "f = \<lparr>amountCategory = Num (categorizeAmount (pd_amount payment)),
           timePattern = Num (analyzeTimePattern pat (pd_timestamp payment)),
           chainPattern = Num (real (length (setAdd (chains pat) (pd_chain payment)))),
           fs_frequency = Num (pp_frequency pat),
           amountDeviation = calculateDeviation pat (pd_amount payment)\<rparr>"
    by simp_all
  have pat': "patterns d' ?k = Some (withChain pat (pd_chain payment))"
    by (simp add: d')
  have same: "d'\<lparr>patterns := (patterns d')(?k \<mapsto> withChain pat (pd_chain payment))\<rparr> = d'"
    by (simp add: d')
  show ?thesis
    unfolding extractDirectFeatures_Some [OF pat'] withChain_fields withChain_idem
      setAdd_idem same f
    by (rule refl)
qed

lemma samplePayment_key: "bytesToHex (pd_pseudonym (samplePayment c)) = ''01ab''"
  by (simp add: samplePayment_def bytesToHex_sample)

lemma seenOnEthereum_pattern: "patterns seenOnEthereum ''01ab'' = Some ethereumPattern"
  unfolding seenOnEthereum_def ethereumPattern_def
  by (simp add: updatePattern_def samplePayment_key newFraudDetector_def Let_def)
     (simp add: samplePayment_def)

lemma assessRisk_seen_polygon:
  "\<exists>a. assessRisk H seenOnEthereum (samplePayment ''polygon'') directOptions =
        Inr (a, seenOnEthereum\<lparr>patterns := (patterns seenOnEthereum)(''01ab'' \<mapsto>
                  ethereumPattern\<lparr>chains := [''ethereum'', ''polygon'']\<rparr>)\<rparr>)"
proof -
  have p: "patterns seenOnEthereum (bytesToHex (pd_pseudonym (samplePayment ''polygon'')))
             = Some ethereumPattern"
    by (simp only: samplePayment_key seenOnEthereum_pattern)
  have c: "withChain ethereumPattern (pd_chain (samplePayment ''polygon''))
             = ethereumPattern\<lparr>chains := [''ethereum'', ''polygon'']\<rparr>"
    by (simp add: withChain_def setAdd_def ethereumPattern_def samplePayment_def)
  show ?thesis
    by (simp add: assessRisk_def extractFeatures_def directOptions_def Let_def
        extractDirectFeatures_Some [OF p] samplePayment_key c)
qed

text \<open>
  C6. The claim is that \<open>assessRisk\<close> leaves the stored patterns as they are. In
  the direct mode (\<open>preservePrivacy = false\<close>) the code does otherwise. On a new
  detector the call throws a \<open>TypeError\<close>. On a detector that has recorded one
  payment of the pseudonym on Ethereum, assessing a payment of the same
  pseudonym on Polygon returns an assessment and leaves the stored set of chains
  of that pseudonym as Ethereum and Polygon, where it was Ethereum alone.
\<close>

theorem assessRisk_direct_writes_patterns:
  "assessRisk H newFraudDetector (samplePayment ''polygon'') directOptions = Inl TypeError
   \<and> (\<exists>a d1. assessRisk H seenOnEthereum (samplePayment ''polygon'') directOptions = Inr (a, d1)
         \<and> map_option chains (patterns seenOnEthereum ''01ab'') = Some [''ethereum'']
         \<and> map_option chains (patterns d1 ''01ab'') = Some [''ethereum'', ''polygon''])"
proof (intro conjI)
  have "patterns newFraudDetector (bytesToHex (pd_pseudonym (samplePayment ''polygon''))) = None"
    by (simp add: newFraudDetector_def)
  from extractDirectFeatures_None [OF this]
  show "assessRisk H newFraudDetector (samplePayment ''polygon'') directOptions = Inl TypeError"
    by (simp add: assessRisk_def extractFeatures_def directOptions_def)
next
  from assessRisk_seen_polygon [of H]
  show "\<exists>a d1. assessRisk H seenOnEthereum (samplePayment ''polygon'') directOptions = Inr (a, d1)
         \<and> map_option chains (patterns seenOnEthereum ''01ab'') = Some [''ethereum'']
         \<and> map_option chains (patterns d1 ''01ab'') = Some [''ethereum'', ''polygon'']"
    by (auto simp: seenOnEthereum_pattern ethereumPattern_def)
qed

text \<open>
  C7. A call of \<open>assessRisk\<close> that returns an assessment, repeated with the same
  payment and options on the state that the first call left, returns the same
  assessment and leaves that state as it is. (A call that throws does so before
  it writes, so its repetition is the same call.)
\<close>

theorem assessRisk_repeatable:
  "assessRisk H d payment options = Inr (a, d')
   \<Longrightarrow> assessRisk H d' payment options = Inr (a, d')"
proof (cases "preservePrivacy options")
  case True
  assume "assessRisk H d payment options = Inr (a, d')"
  then show ?thesis using True by (simp add: assessRisk_def extractFeatures_def Let_def)
next
  case False
  assume h: "assessRisk H d payment options = Inr (a, d')"
  then obtain f where f: "extractDirectFeatures d payment = Inr (f, d')"
    using False by (auto simp: assessRisk_def extractFeatures_def Let_def split: sum.splits)
  from extractDirectFeatures_twice [OF f] h f False show ?thesis
    by (simp add: assessRisk_def extractFeatures_def Let_def)
qed

theorem assessRisk_repeatable_witness:
  "\<exists>a d1. assessRisk allOnes seenOnEthereum (samplePayment ''polygon'') directOptions = Inr (a, d1)
     \<and> assessRisk allOnes d1 (samplePayment ''polygon'') directOptions = Inr (a, d1)
     \<and> (\<exists>b. assessRisk allOnes seenOnEthereum (samplePayment ''polygon'') defaultDetectionOptions
               = Inr (b, seenOnEthereum)
           \<and> assessRisk allOnes seenOnEthereum (samplePayment ''polygon'') defaultDetectionOptions
               = Inr (b, seenOnEthereum))"
proof -
  from assessRisk_seen_polygon [of allOnes] obtain a d1
    where first: "assessRisk allOnes seenOnEthereum (samplePayment ''polygon'') directOptions
                    = Inr (a, d1)"
    by blast
  have priv: "preservePrivacy defaultDetectionOptions"
    by (simp add: defaultDetectionOptions_def)
  from assessRisk_private [OF priv, of allOnes seenOnEthereum "samplePayment ''polygon''"]
  obtain b where second: "assessRisk allOnes seenOnEthereum (samplePayment ''polygon'')
                            defaultDetectionOptions = Inr (b, seenOnEthereum)"
    by blast
  from first assessRisk_repeatable [OF first] second assessRisk_repeatable [OF second]
  show ?thesis by blast
qed

section \<open>The amount deviation in the private mode\<close>

lemma unat_byte_le: "unat (b :: byte) \<le> 255"
proof -
  have "unat b < 2 ^ LENGTH(8)" by (rule unsigned_less)
  then show ?thesis by simp
qed

lemma hashToNumber_range:
  assumes "hash \<noteq> []" "0 \<le> mx"
  shows "\<exists>x. hashToNumber hash offset mx = Num x \<and> 0 \<le> x \<and> x \<le> mx"
proof -
  define b where "b = real (unat (hash ! (offset mod length hash)))"
  have "b \<le> 255"
    unfolding b_def using unat_byte_le [of "hash ! (offset mod length hash)"]
    by (metis of_nat_le_iff of_nat_numeral)
  then have "b / 255 \<le> 1" by simp
  moreover have "0 \<le> b" unfolding b_def by (rule of_nat_0_le_iff)
  then have "0 \<le> b / 255" by simp
  ultimately have "b / 255 * mx \<le> mx" "0 \<le> b / 255 * mx"
    using assms(2) mult_right_mono [of "b / 255" 1 mx] by simp_all
  moreover have "hashToNumber hash offset mx = Num (b / 255 * mx)"
    using assms(1) unfolding b_def hashToNumber_def Let_def by (simp only: if_False)
  ultimately show ?thesis by blast
qed

lemma private_deviation_range:
  assumes "H (commitment p) \<noteq> []"
  shows "\<exists>x. amountDeviation (extractPrivateFeatures H p) = Num x \<and> 0 \<le> x \<and> x \<le> 0.5"
proof -
  obtain y where y: "hashToNumber (H (commitment p)) 4 50 = Num y" "0 \<le> y" "y \<le> 50"
    using hashToNumber_range [OF assms, of 50 4] by auto
  have "amountDeviation (extractPrivateFeatures H p) = Num (y / 100)"
    using y(1) by (simp add: extractPrivateFeatures_def Let_def)
  moreover have "0 \<le> y / 100" "y / 100 \<le> 0.5" using y(2,3) by simp_all
  ultimately show ?thesis by blast
qed

lemma private_deviation_not_gt:
  assumes "0.5 \<le> t"
  shows "\<not> gt (amountDeviation (extractPrivateFeatures H p)) t"
proof (cases "H (commitment p) = []")
  case True
  then show ?thesis by (simp add: extractPrivateFeatures_def Let_def hashToNumber_def)
next
  case False
  from private_deviation_range [of H p, OF this]
  obtain x where "amountDeviation (extractPrivateFeatures H p) = Num x" "x \<le> 0.5" by blast
  then show ?thesis using assms by simp
qed

lemma deviation_anomaly_needs_gt:
  assumes "\<not> gt (amountDeviation f) 0.5"
  shows "''high_amount_deviation'' \<notin> set (detectAnomalies f s)"
  using assms by (simp add: detectAnomalies_def)

text \<open>
  C10. In the privacy-preserving mode the amount deviation of the extracted
  features is a number between 0 and 0.5 (for a digest that is not empty, as
  every SHA-256 digest is). So an assessment with \<open>preservePrivacy = true\<close>
  always returns, leaves the detector as it is, never reports the anomaly
  \<open>high_amount_deviation\<close>, and its risk score is made of the anomaly count, the
  frequency term and the timing term alone: the term 0.15 of the amount
  deviation is never added.
\<close>

theorem private_amountDeviation_bounded:
  "(H (commitment payment) \<noteq> [] \<longrightarrow>
      (\<exists>x. amountDeviation (extractPrivateFeatures H payment) = Num x \<and> 0 \<le> x \<and> x \<le> 0.5))
   \<and> \<not> gt (amountDeviation (extractPrivateFeatures H payment)) 0.5
   \<and> \<not> gt (amountDeviation (extractPrivateFeatures H payment)) 0.7
   \<and> (preservePrivacy options \<longrightarrow>
        (\<exists>a. assessRisk H d payment options = Inr (a, d)
           \<and> ''high_amount_deviation'' \<notin> set (anomalies a)
           \<and> riskScore a =
               min 1 (real (length (anomalies a)) * 0.15
                 + (if gt (fs_frequency (extractPrivateFeatures H payment)) 0.9 then 0.2 else 0)
                 + (if eqn (timePattern (extractPrivateFeatures H payment)) 0 then 0.1 else 0))))"
proof (intro conjI impI)
  assume "H (commitment payment) \<noteq> []"
  then show "\<exists>x. amountDeviation (extractPrivateFeatures H payment) = Num x \<and> 0 \<le> x \<and> x \<le> 0.5"
    by (rule private_deviation_range)
next
  show "\<not> gt (amountDeviation (extractPrivateFeatures H payment)) 0.5"
    by (rule private_deviation_not_gt) simp
next
  show "\<not> gt (amountDeviation (extractPrivateFeatures H payment)) 0.7"
    by (rule private_deviation_not_gt) simp
next
  assume priv: "preservePrivacy options"
  let ?f = "extractPrivateFeatures H payment"
  let ?an = "detectAnomalies ?f (sensitivity options)"
  have n5: "\<not> gt (amountDeviation ?f) 0.5" by (rule private_deviation_not_gt) simp
  have n7: "\<not> gt (amountDeviation ?f) 0.7" by (rule private_deviation_not_gt) simp
  have a: "assessRisk H d payment options =
             Inr (\<lparr>riskScore = calculateRiskScore ?an ?f,
                   riskLevel = scoreToLevel (calculateRiskScore ?an ?f),
                   anomalies = ?an,
                   fa_confidence = calculateConfidence ?f ?an\<rparr>, d)"
    using priv by (simp add: assessRisk_def extractFeatures_def Let_def)
  have s: "calculateRiskScore ?an ?f =
             min 1 (real (length ?an) * 0.15
                 + (if gt (fs_frequency ?f) 0.9 then 0.2 else 0)
                 + (if eqn (timePattern ?f) 0 then 0.1 else 0))"
    using n7 by (simp add: calculateRiskScore_def Let_def)
  show "\<exists>a. assessRisk H d payment options = Inr (a, d)
           \<and> ''high_amount_deviation'' \<notin> set (anomalies a)
           \<and> riskScore a =
               min 1 (real (length (anomalies a)) * 0.15
                 + (if gt (fs_frequency ?f) 0.9 then 0.2 else 0)
                 + (if eqn (timePattern ?f) 0 then 0.1 else 0))"
    unfolding a using deviation_anomaly_needs_gt [OF n5] s by simp
qed

lemma allOnes_features:
  "extractPrivateFeatures allOnes p =
     \<lparr>amountCategory = Num 0, timePattern = Num 3, chainPattern = Num 3,
      fs_frequency = Num 1, amountDeviation = Num 0.5\<rparr>"
  by (simp add: extractPrivateFeatures_def allOnes_def hashToCategory_def hashToNumber_def Let_def)

theorem private_amountDeviation_bounded_witness:
  "allOnes (commitment (samplePayment ''polygon'')) \<noteq> []
   \<and> preservePrivacy defaultDetectionOptions
   \<and> amountDeviation (extractPrivateFeatures allOnes (samplePayment ''polygon'')) = Num 0.5
   \<and> (\<exists>a. assessRisk allOnes newFraudDetector (samplePayment ''polygon'') defaultDetectionOptions
             = Inr (a, newFraudDetector)
          \<and> ''high_amount_deviation'' \<notin> set (anomalies a)
          \<and> riskScore a = min 1 (real (length (anomalies a)) * 0.15 + 0.2))"
  using private_amountDeviation_bounded
    [of allOnes "samplePayment ''polygon''" defaultDetectionOptions newFraudDetector]
  by (simp add: allOnes_features) (simp add: allOnes_def defaultDetectionOptions_def)

section \<open>Route selection and the gas ceiling\<close>

lemma getPrivacyScore_simps [simp]:
  "getPrivacyScore Low = 0.3" "getPrivacyScore Medium = 0.5"
  "getPrivacyScore High = 0.7" "getPrivacyScore Maximum = 0.9"
  by (simp_all add: getPrivacyScore_def)

text \<open>
  With a ceiling that is not \<open>0n\<close> the selection is the three-level fallback:
  the best candidate that passes both filters, else the best candidate, else
  the default route; a route that passes the filters is within the ceiling.
\<close>

lemma findOptimalRoute_nonzero_ceiling:
  assumes "maxGasPrice options = Some m" "m \<noteq> 0"
  shows "findOptimalRoute r options =
           (case filter (passes options m) (candidates r options) of
              x # _ \<Rightarrow> x
            | [] \<Rightarrow> (case candidates r options of
                       x # _ \<Rightarrow> x
                     | [] \<Rightarrow> createDefaultRoute
                               (case ro_targetChain options of
                                  None \<Rightarrow> ''ethereum''
                                | Some t \<Rightarrow> if t = [] then ''ethereum'' else t)))"
proof -
  have "filter (\<lambda>x. estimatedGas x \<le> m)
          (filter (\<lambda>x. privacyScore x \<ge> getPrivacyScore (ro_privacyLevel options))
             (candidates r options))
        = filter (passes options m) (candidates r options)"
    unfolding filter_filter by (rule filter_cong) (auto simp: passes_def)
  then show ?thesis
    using assms unfolding findOptimalRoute_def Let_def candidates_def by simp
qed

lemma findOptimalRoute_within_ceiling:
  assumes "maxGasPrice options = Some m" "m \<noteq> 0"
    and "filter (passes options m) (candidates r options) \<noteq> []"
  shows "estimatedGas (findOptimalRoute r options) \<le> m"
proof -
  from assms(3) obtain x xs where xs: "filter (passes options m) (candidates r options) = x # xs"
    by (cases "filter (passes options m) (candidates r options)") simp_all
  then have "x \<in> set (filter (passes options m) (candidates r options))" by simp
  then have "passes options m x" by simp
  moreover have "findOptimalRoute r options = x"
    by (simp add: findOptimalRoute_nonzero_ceiling [OF assms(1,2)] xs)
  ultimately show ?thesis by (simp add: passes_def)
qed

lemma findOptimalRoute_unconstrained:
  assumes "maxGasPrice options = None \<or> maxGasPrice options = Some 0"
  shows "findOptimalRoute r options =
           (case filter (\<lambda>x. privacyScore x \<ge> getPrivacyScore (ro_privacyLevel options))
                   (candidates r options) of
              x # _ \<Rightarrow> x
            | [] \<Rightarrow> (case candidates r options of
                       x # _ \<Rightarrow> x
                     | [] \<Rightarrow> createDefaultRoute
                               (case ro_targetChain options of
                                  None \<Rightarrow> ''ethereum''
                                | Some t \<Rightarrow> if t = [] then ''ethereum'' else t)))"
  using assms unfolding findOptimalRoute_def Let_def candidates_def by auto

lemma poorSolana_history:
  "routingHistory routerAfterPoorSolana = [''solana'' \<mapsto> [poorSolanaRoute]]"
  by (simp add: routerAfterPoorSolana_def updateHistory_def newAIPaymentRouter_def Let_def)

lemma poorSolana_metrics: "chainMetrics routerAfterPoorSolana = initializeChainMetrics 0"
  by (simp add: routerAfterPoorSolana_def updateHistory_def newAIPaymentRouter_def Let_def)

lemma metrics_bsc_solana:
  "initializeChainMetrics 0 ''bsc'' = Some \<lparr>cm_avgGasPrice = 20, avgConfirmationBlocks = 12,
      cm_networkHealth = 0.95, cm_lastUpdated = 0\<rparr>"
  "initializeChainMetrics 0 ''solana'' = Some \<lparr>cm_avgGasPrice = 20, avgConfirmationBlocks = 12,
      cm_networkHealth = 0.95, cm_lastUpdated = 0\<rparr>"
  by (simp_all add: initializeChainMetrics_def sevenChains_def)

lemma zeroCeiling_fields:
  "preferredChains zeroCeiling = Some [''bsc'', ''solana'']"
  "maxGasPrice zeroCeiling = Some 0"
  "ro_privacyLevel zeroCeiling = High"
  "ro_amount zeroCeiling = 1"
  by (simp_all add: zeroCeiling_def)

lemma ceiling6000_fields:
  "preferredChains ceiling6000 = Some [''bsc'', ''solana'']"
  "maxGasPrice ceiling6000 = Some 6000"
  "ro_privacyLevel ceiling6000 = High"
  "ro_amount ceiling6000 = 1"
  by (simp_all add: ceiling6000_def zeroCeiling_def)

lemma calculateRoute_bsc:
  assumes "ro_amount options = 1" "ro_privacyLevel options = High"
  shows "calculateRoute routerAfterPoorSolana ''bsc'' options m
           = bscRoute\<lparr>estimatedTime := estimateTime ''bsc'' m\<rparr>"
  using assms
  by (simp add: calculateRoute_def bscRoute_def estimateGas_def baseGas_def
      calculatePrivacyScore_def baseScores_def getSuccessRate_def poorSolana_history
      defaultSuccessRates_def)

lemma calculateRoute_solana:
  assumes "ro_amount options = 1" "ro_privacyLevel options = High"
  shows "calculateRoute routerAfterPoorSolana ''solana'' options m
           = solanaRoute\<lparr>estimatedTime := estimateTime ''solana'' m\<rparr>"
  using assms
  by (simp add: calculateRoute_def solanaRoute_def estimateGas_def baseGas_def
      calculatePrivacyScore_def baseScores_def getSuccessRate_def poorSolana_history
      defaultSuccessRates_def poorSolanaRoute_def)

lemma analyzed_bsc_solana:
  assumes "ro_amount options = 1" "ro_privacyLevel options = High"
  shows "analyzeChains routerAfterPoorSolana options [''bsc'', ''solana'']
           = [bscRoute, solanaRoute]"
  by (simp add: poorSolana_metrics metrics_bsc_solana calculateRoute_bsc [OF assms]
      calculateRoute_solana [OF assms] estimateTime_def blockTimes_def)
     (simp add: bscRoute_def solanaRoute_def)

lemma scores_bsc_solana:
  "routeScore bscRoute = 0.6279958" "routeScore solanaRoute = 0.383999"
  by (simp_all add: routeScore_def bscRoute_def solanaRoute_def)

lemma ranked_bsc_solana:
  "sort_key (\<lambda>a. - routeScore a) [bscRoute, solanaRoute] = [bscRoute, solanaRoute]"
  by (simp add: scores_bsc_solana)

lemma candidates_zeroCeiling:
  "candidates routerAfterPoorSolana zeroCeiling = [bscRoute, solanaRoute]"
  unfolding candidates_def zeroCeiling_fields option.case
  by (simp only: analyzed_bsc_solana [OF zeroCeiling_fields(4,3)] ranked_bsc_solana)

lemma candidates_ceiling6000:
  "candidates routerAfterPoorSolana ceiling6000 = [bscRoute, solanaRoute]"
  unfolding candidates_def ceiling6000_fields option.case
  by (simp only: analyzed_bsc_solana [OF ceiling6000_fields(4,3)] ranked_bsc_solana)

lemma privacy_bsc_solana:
  "privacyScore bscRoute = 0.6" "privacyScore solanaRoute = 0.96"
  "estimatedGas bscRoute = 21000" "estimatedGas solanaRoute = 5000"
  by (simp_all add: bscRoute_def solanaRoute_def)

text \<open>
  C1. The claim is that with a supplied ceiling the selected route is within
  the ceiling unless no candidate passes both filters, and that then the best
  candidate before filtering is selected. With the ceiling \<open>0n\<close> the code does
  otherwise. The router has one Solana record of success rate 0.5; the request
  is at level high over BSC and Solana with \<open>maxGasPrice = 0n\<close>. The candidates
  are ranked BSC, Solana; none passes both filters (BSC is below the privacy
  threshold, Solana is above the ceiling); the selected route is Solana, with
  gas 5000, not the best candidate BSC.
\<close>

theorem findOptimalRoute_zero_ceiling:
  "maxGasPrice zeroCeiling = Some 0
   \<and> candidates routerAfterPoorSolana zeroCeiling = [bscRoute, solanaRoute]
   \<and> filter (passes zeroCeiling 0) (candidates routerAfterPoorSolana zeroCeiling) = []
   \<and> findOptimalRoute routerAfterPoorSolana zeroCeiling = solanaRoute
   \<and> estimatedGas solanaRoute = 5000
   \<and> solanaRoute \<noteq> bscRoute"
proof -
  have "findOptimalRoute routerAfterPoorSolana zeroCeiling = solanaRoute"
    using findOptimalRoute_unconstrained [of zeroCeiling routerAfterPoorSolana]
    by (simp add: zeroCeiling_fields candidates_zeroCeiling privacy_bsc_solana)
  moreover have "filter (passes zeroCeiling 0) [bscRoute, solanaRoute] = []"
    by (simp add: passes_def zeroCeiling_fields privacy_bsc_solana)
  moreover have "solanaRoute \<noteq> bscRoute"
    by (simp add: bscRoute_def solanaRoute_def)
  ultimately show ?thesis
    by (simp add: zeroCeiling_fields candidates_zeroCeiling privacy_bsc_solana)
qed

text \<open>The same router and request with the ceiling \<open>6000n\<close>: Solana passes and is selected.\<close>

lemma findOptimalRoute_ceiling6000:
  "findOptimalRoute routerAfterPoorSolana ceiling6000 = solanaRoute
   \<and> estimatedGas (findOptimalRoute routerAfterPoorSolana ceiling6000) \<le> 6000"
proof -
  have m: "maxGasPrice ceiling6000 = Some 6000" "(6000::int) \<noteq> 0"
    by (simp_all add: ceiling6000_fields)
  have f: "filter (passes ceiling6000 6000) (candidates routerAfterPoorSolana ceiling6000)
             = [solanaRoute]"
    by (simp add: candidates_ceiling6000 passes_def ceiling6000_fields privacy_bsc_solana)
  have "findOptimalRoute routerAfterPoorSolana ceiling6000 = solanaRoute"
    by (simp add: findOptimalRoute_nonzero_ceiling [OF m] f)
  moreover have "estimatedGas (findOptimalRoute routerAfterPoorSolana ceiling6000) \<le> 6000"
    by (rule findOptimalRoute_within_ceiling [OF m]) (simp add: f)
  ultimately show ?thesis by simp
qed

section \<open>Defaults of the reputation learner\<close>

lemma onePayment_features:
  "rl_extractFeatures 0 [onePayment] =
     \<lparr>paymentCount = Num 1, totalAmount = Num 1000000, fv_avgAmount = Num 1000000,
      fv_successRate = Num 1, avgInterval = Num 0, chainDiversity = Num (1 / 7),
      recentActivity = Num 0.1\<rparr>"
  by (simp add: rl_extractFeatures_def Let_def onePayment_def calculateRecentActivity_def)

lemma onePayment_prediction:
  "rl_predict H 0 newAIReputationLearner ps (Some [onePayment]) =
     \<lparr>score = Num 50, rp_confidence = 0.55, factors = [''reliable'', ''high_value'']\<rparr>"
  by (simp add: rl_predict_def newAIReputationLearner_def onePayment_features model_predict_def
      identifyFactors_def Let_def)

text \<open>
  C8, as stated, fails: a learner that was never trained, asked with a payment
  history, does not answer with the sentinel. For the history of one payment
  its confidence is 0.55.
\<close>

theorem predict_untrained_counterexample:
  "\<not> (\<forall>H now l pseudonym hist. \<not> isTrained l \<longrightarrow>
         score (rl_predict H now l pseudonym hist) = Num 50
         \<and> rp_confidence (rl_predict H now l pseudonym hist) = 0.5)"
proof
  assume a: "\<forall>H now l pseudonym hist. \<not> isTrained l \<longrightarrow>
         score (rl_predict H now l pseudonym hist) = Num 50
         \<and> rp_confidence (rl_predict H now l pseudonym hist) = 0.5"
  have "\<not> isTrained newAIReputationLearner"
    by (simp add: newAIReputationLearner_def)
  with a have "rp_confidence (rl_predict id 0 newAIReputationLearner [] (Some [onePayment])) = 0.5"
    by blast
  then show False by (simp add: onePayment_prediction)
qed

text \<open>
  C8, amended. The features of an empty payment history are all zero, and for
  every pseudonym a learner that was never trained, asked without a payment
  history, answers with the sentinel: score 50, confidence 0.5 and the factor
  \<open>insufficient_data\<close>.
\<close>

theorem predict_defaults:
  "rl_extractFeatures now [] =
     \<lparr>paymentCount = Num 0, totalAmount = Num 0, fv_avgAmount = Num 0, fv_successRate = Num 0,
      avgInterval = Num 0, chainDiversity = Num 0, recentActivity = Num 0\<rparr>
   \<and> (\<not> isTrained l \<longrightarrow>
        rl_predict H now l pseudonym None =
          \<lparr>score = Num 50, rp_confidence = 0.5, factors = [''insufficient_data'']\<rparr>)"
  by (simp add: rl_extractFeatures_def createEmptyFeatures_def rl_predict_def)

theorem predict_defaults_witness:
  "\<not> isTrained newAIReputationLearner
   \<and> rl_predict allOnes 0 newAIReputationLearner [0x01, 0xab] None =
       \<lparr>score = Num 50, rp_confidence = 0.5, factors = [''insufficient_data'']\<rparr>
   \<and> rl_predict allOnes 0 (newAIReputationLearner\<lparr>weights := [(''regular'', Num 0.3)]\<rparr>)
         [0x01, 0xab] None =
       \<lparr>score = Num 50, rp_confidence = 0.5, factors = [''insufficient_data'']\<rparr>"
  using predict_defaults [of 0 newAIReputationLearner allOnes "[0x01, 0xab]"]
    predict_defaults [of 0 "newAIReputationLearner\<lparr>weights := [(''regular'', Num 0.3)]\<rparr>"
      allOnes "[0x01, 0xab]"]
  by (simp add: newAIReputationLearner_def)

section \<open>The estimated cost of the bridge\<close>

lemma init_lookup:
  "\<exists>c. initializePrivacyConfigs l = Some c \<and> proofSize c = 1024 * 2 ^ privacyRank l"
  by (cases l) (simp_all add: initializePrivacyConfigs_def)

lemma adjustLevel_total: "\<exists>l'. adjustLevel l steps = Some l'"
  using adjustLevel_rank by blast

lemma adjustForTransactionType_total: "\<exists>l'. adjustForTransactionType l ty = Some l'"
  by (simp add: adjustForTransactionType_def Let_def adjustLevel_total)

lemma adjustForAmount_total: "\<exists>l'. adjustForAmount l amt = Some l'"
  by (simp add: adjustForAmount_def adjustLevel_total)

lemma adjustForNetwork_total: "\<exists>l'. adjustForNetwork l nc = Some l'"
  by (simp add: adjustForNetwork_def adjustLevel_total)

lemma bind_Some_ex:
  "\<exists>x. m = Some x \<Longrightarrow> (\<And>x. \<exists>y. f x = Some y) \<Longrightarrow> \<exists>y. Option.bind m f = Some y"
  by auto

text \<open>
  With the four configurations of the constructor, \<open>adaptPrivacyLevel\<close> always
  returns a configuration, and its proof size is 1024 times 2 to the rank of
  its level.
\<close>

lemma adaptPrivacyLevel_total:
  assumes "privacyConfigs a = initializePrivacyConfigs"
  shows "\<exists>c. adaptPrivacyLevel a ctx = Some c
            \<and> proofSize c = 1024 * 2 ^ privacyRank (level c)"
proof -
  define threat
    where "threat = (case threatLevel ctx of Some t \<Rightarrow> t | None \<Rightarrow> assessThreat a ctx)"
  define s1
    where "s1 = Option.bind (Some (threatToPrivacyLevel threat))
                  (\<lambda>l. adjustForTransactionType l (transactionType ctx))"
  define s2
    where "s2 = (case ctx_amount ctx of
                   None \<Rightarrow> s1
                 | Some amt \<Rightarrow> if amt = 0 then s1
                               else Option.bind s1 (\<lambda>l. adjustForAmount l amt))"
  define s3
    where "s3 = (case networkConditions ctx of
                   None \<Rightarrow> s2
                 | Some nc \<Rightarrow> Option.bind s2 (\<lambda>l. adjustForNetwork l nc))"
  have e1: "\<exists>x. s1 = Some x"
    unfolding s1_def by (rule bind_Some_ex) (simp_all add: adjustForTransactionType_total)
  have e2: "\<exists>x. s2 = Some x"
  proof (cases "ctx_amount ctx")
    case None
    then show ?thesis using e1 by (simp add: s2_def)
  next
    case (Some amt)
    have "\<exists>y. Option.bind s1 (\<lambda>l. adjustForAmount l amt) = Some y"
      using e1 by (rule bind_Some_ex) (rule adjustForAmount_total)
    then show ?thesis using e1 Some by (simp add: s2_def)
  qed
  have e3: "\<exists>x. s3 = Some x"
  proof (cases "networkConditions ctx")
    case None
    then show ?thesis using e2 by (simp add: s3_def)
  next
    case (Some nc)
    have "\<exists>y. Option.bind s2 (\<lambda>l. adjustForNetwork l nc) = Some y"
      using e2 by (rule bind_Some_ex) (rule adjustForNetwork_total)
    then show ?thesis using Some by (simp add: s3_def)
  qed
  then obtain l where l: "s3 = Some l" by blast
  obtain c where c: "initializePrivacyConfigs l = Some c"
      "proofSize c = 1024 * 2 ^ privacyRank l"
    using init_lookup by blast
  have "adaptPrivacyLevel a ctx =
          Option.bind s3 (\<lambda>l. map_option (\<lambda>c. c\<lparr>level := l\<rparr>)
             (case privacyConfigs a l of Some c \<Rightarrow> Some c | None \<Rightarrow> privacyConfigs a Medium))"
    unfolding adaptPrivacyLevel_def Let_def s3_def s2_def s1_def threat_def by (rule refl)
  then have "adaptPrivacyLevel a ctx = Some (c\<lparr>level := l\<rparr>)"
    using l c(1) assms by simp
  then show ?thesis using c(2) by simp
qed

text \<open>
  C9. For every route and configuration, the cost is the gas of the route
  times the ceiling of the proof size over 1024, an integer product. A bridge
  that holds the four configurations of the constructor always returns a result
  from \<open>optimizePayment\<close>, and the estimated cost of that result is the gas of its
  route times the ceiling of its configuration's proof size over 1024, which is
  the gas times 1, 2, 4 or 8 according to the level.
\<close>

theorem estimatedCost_formula:
  "calculateCost rt cfg = estimatedGas rt * \<lceil>proofSize cfg / 1024\<rceil>
   \<and> (privacyConfigs (privacyAdapter b) = initializePrivacyConfigs \<longrightarrow>
        (\<exists>res b'. optimizePayment H now b request = Inr (res, b')
           \<and> estimatedCost res
               = estimatedGas (route res) * \<lceil>proofSize (privacyConfig res) / 1024\<rceil>
           \<and> estimatedCost res
               = estimatedGas (route res) * 2 ^ privacyRank (level (privacyConfig res))))"
proof (intro conjI impI)
  show "calculateCost rt cfg = estimatedGas rt * \<lceil>proofSize cfg / 1024\<rceil>"
    by (simp add: calculateCost_def Let_def)
next
  assume cfgs: "privacyConfigs (privacyAdapter b) = initializePrivacyConfigs"
  define r where "r = findOptimalRoute (router b)
                 \<lparr>ro_amount = req_amount request,
                  ro_targetChain = req_targetChain request,
                  ro_privacyLevel = (case req_privacyLevel request of None \<Rightarrow> High | Some l \<Rightarrow> l),
                  maxGasPrice = None, preferredChains = None\<rparr>"
  define pd where "pd = \<lparr>pd_pseudonym = req_userPseudonym request,
                         pd_amount = req_amount request,
                         pd_timestamp = now,
                         pd_chain = chain r,
                         commitment = replicate 32 0\<rparr>"
  obtain fa where fa: "assessRisk H (fraudDetector b) pd \<lparr>preservePrivacy = True, sensitivity = 0.5\<rparr>
                         = Inr (fa, fraudDetector b)"
    using assessRisk_private [of "\<lparr>preservePrivacy = True, sensitivity = 0.5\<rparr>" H "fraudDetector b" pd]
    by auto
  define ctx where "ctx = \<lparr>userPseudonym = req_userPseudonym request,
                                     transactionType = Payment,
                                     ctx_amount = Some (req_amount request),
                                     threatLevel = Some (fraudToThreat (riskLevel fa)),
                                     networkConditions = None\<rparr>"
  obtain c where c: "adaptPrivacyLevel (privacyAdapter b) ctx = Some c"
      "proofSize c = 1024 * 2 ^ privacyRank (level c)"
    using adaptPrivacyLevel_total [OF cfgs] by blast
  have res: "optimizePayment H now b request =
               Inr (\<lparr>route = r, privacyConfig = c, fraudAssessment = fa,
                     recommendedChain = chain r,
                     estimatedCost = calculateCost r c\<rparr>, b\<lparr>fraudDetector := fraudDetector b\<rparr>)"
    unfolding optimizePayment_def Let_def r_def [symmetric] pd_def [symmetric] fa sum.case
      prod.case ctx_def [symmetric] c(1) option.case
    by simp
  have "\<lceil>proofSize c / 1024\<rceil> = 2 ^ privacyRank (level c)"
    unfolding c(2) by (simp add: ceiling_eq_iff)
  then show "\<exists>res b'. optimizePayment H now b request = Inr (res, b')
           \<and> estimatedCost res
               = estimatedGas (route res) * \<lceil>proofSize (privacyConfig res) / 1024\<rceil>
           \<and> estimatedCost res
               = estimatedGas (route res) * 2 ^ privacyRank (level (privacyConfig res))"
    unfolding res by (simp add: calculateCost_def Let_def)
qed

text \<open>
  The sample request on a new bridge: the ranking of the seven chains at level
  high for an amount above a million, the assessment under the digest of
  maximal bytes, and the adapted configuration.
\<close>

lemma sampleOptions_fields:
  "ro_amount sampleOptions = 20000000" "ro_privacyLevel sampleOptions = High"
  "maxGasPrice sampleOptions = None" "preferredChains sampleOptions = None"
  "ro_targetChain sampleOptions = None"
  by (simp_all add: sampleOptions_def)

lemma sample_analyzed:
  "analyzeChains (newAIPaymentRouter 0) sampleOptions sevenChains =
     [mkRoute ''ethereum'' 25200 0.84 0.95 144000, mkRoute ''polygon'' 25200 0.72 0.98 24000,
      mkRoute ''bsc'' 25200 0.6 0.97 36000, mkRoute ''arbitrum'' 25200 0.84 0.96 12000,
      mkRoute ''optimism'' 25200 0.84 0.96 24000, mkRoute ''avalanche'' 25200 0.72 0.97 24000,
      mkRoute ''solana'' 6000 0.96 0.99 4800]"
  by (simp add: sevenChains_def newAIPaymentRouter_def initializeChainMetrics_def
      calculateRoute_def sampleOptions_fields estimateGas_def baseGas_def
      calculatePrivacyScore_def baseScores_def getSuccessRate_def defaultSuccessRates_def
      estimateTime_def blockTimes_def mkRoute_def)

lemma routeScore_mkRoute:
  "routeScore (mkRoute c g p s t) =
     p * 0.4 + s * 0.4 - (if g > 0 then real_of_int g / 1000000000 else 0) * 0.2"
  by (simp add: routeScore_def mkRoute_def)

lemma sample_candidates:
  "candidates (newAIPaymentRouter 0) sampleOptions =
     [mkRoute ''solana'' 6000 0.96 0.99 4800, mkRoute ''arbitrum'' 25200 0.84 0.96 12000,
      mkRoute ''optimism'' 25200 0.84 0.96 24000, mkRoute ''ethereum'' 25200 0.84 0.95 144000,
      mkRoute ''polygon'' 25200 0.72 0.98 24000, mkRoute ''avalanche'' 25200 0.72 0.97 24000,
      mkRoute ''bsc'' 25200 0.6 0.97 36000]"
  unfolding candidates_def sampleOptions_fields option.case sample_analyzed
  by (simp add: routeScore_mkRoute)

lemma sample_route:
  "findOptimalRoute (newAIPaymentRouter 0) sampleOptions = mkRoute ''solana'' 6000 0.96 0.99 4800"
proof -
  have "privacyScore (mkRoute ''solana'' 6000 0.96 0.99 4800) \<ge> getPrivacyScore High"
    by (simp add: mkRoute_def)
  then show ?thesis
    using findOptimalRoute_unconstrained [of sampleOptions "newAIPaymentRouter 0"]
    by (simp add: sampleOptions_fields sample_candidates)
qed

lemma sample_assessment:
  "assessRisk allOnes newFraudDetector p \<lparr>preservePrivacy = True, sensitivity = 0.5\<rparr> =
     Inr (\<lparr>riskScore = 0.35, riskLevel = RLow, anomalies = [''high_frequency''],
           fa_confidence = 0.9\<rparr>, newFraudDetector)"
  by (simp add: assessRisk_def extractFeatures_def allOnes_features Let_def detectAnomalies_def
      calculateRiskScore_def scoreToLevel_def calculateConfidence_def)

lemma sample_config:
  "adaptPrivacyLevel newPrivacyAdapter
     \<lparr>userPseudonym = p, transactionType = Payment, ctx_amount = Some 20000000,
      threatLevel = Some TLow, networkConditions = None\<rparr> =
   Some \<lparr>level = Medium, proofSize = 2048, verifyTime = 50, zkProofRequired = True,
         merkleDepth = 12, polynomialDegree = 8\<rparr>"
  by (simp add: adaptPrivacyLevel_def Let_def adjustForTransactionType_def adjustForAmount_def
      adjustLevel_eq levels_def newPrivacyAdapter_def initializePrivacyConfigs_def)

lemma sample_result:
  "optimizePayment allOnes 0 (newX402AIBridge 0) sampleRequest =
     Inr (\<lparr>route = mkRoute ''solana'' 6000 0.96 0.99 4800,
           privacyConfig = \<lparr>level = Medium, proofSize = 2048, verifyTime = 50,
              zkProofRequired = True, merkleDepth = 12, polynomialDegree = 8\<rparr>,
           fraudAssessment = \<lparr>riskScore = 0.35, riskLevel = RLow,
              anomalies = [''high_frequency''], fa_confidence = 0.9\<rparr>,
           recommendedChain = ''solana'',
           estimatedCost = 12000\<rparr>, newX402AIBridge 0)"
proof -
  have o: "\<lparr>ro_amount = req_amount sampleRequest,
            ro_targetChain = req_targetChain sampleRequest,
            ro_privacyLevel = (case req_privacyLevel sampleRequest of None \<Rightarrow> High | Some l \<Rightarrow> l),
            maxGasPrice = None, preferredChains = None\<rparr> = sampleOptions"
    by (simp add: sampleRequest_def sampleOptions_def)
  have b: "router (newX402AIBridge 0) = newAIPaymentRouter 0"
    "fraudDetector (newX402AIBridge 0) = newFraudDetector"
    "privacyAdapter (newX402AIBridge 0) = newPrivacyAdapter"
    by (simp_all add: newX402AIBridge_def)
  have q: "req_amount sampleRequest = 20000000"
    by (simp add: sampleRequest_def)
  show ?thesis
    unfolding optimizePayment_def Let_def o b sample_route sample_assessment sum.case prod.case
    by (simp add: q sample_config calculateCost_def) (simp add: mkRoute_def newX402AIBridge_def)
qed

theorem estimatedCost_formula_witness:
  "privacyConfigs (privacyAdapter (newX402AIBridge 0)) = initializePrivacyConfigs
   \<and> (\<exists>res b'. optimizePayment allOnes 0 (newX402AIBridge 0) sampleRequest = Inr (res, b')
         \<and> estimatedGas (route res) = 6000
         \<and> proofSize (privacyConfig res) = 2048
         \<and> estimatedCost res = 6000 * \<lceil>2048 / 1024 :: real\<rceil>
         \<and> estimatedCost res = 12000)"
proof -
  have cfgs: "privacyConfigs (privacyAdapter (newX402AIBridge 0)) = initializePrivacyConfigs"
    by (simp add: newX402AIBridge_def newPrivacyAdapter_def)
  from estimatedCost_formula [of _ _ "newX402AIBridge 0" allOnes 0 sampleRequest] cfgs
  obtain res b' where
    r: "optimizePayment allOnes 0 (newX402AIBridge 0) sampleRequest = Inr (res, b')"
    and cost: "estimatedCost res
                 = estimatedGas (route res) * \<lceil>proofSize (privacyConfig res) / 1024\<rceil>"
    by blast
  from r have parts: "estimatedGas (route res) = 6000" "proofSize (privacyConfig res) = 2048"
    unfolding sample_result by (auto simp: mkRoute_def)
  from cost have "estimatedCost res = 6000 * \<lceil>2048 / 1024 :: real\<rceil>"
    unfolding parts .
  moreover from this have "estimatedCost res = 12000" by simp
  ultimately show ?thesis using cfgs r parts by blast
qed

end
